theory Spec2Isabelle
  imports Main "HOL-Library.Word"
begin

section \<open>The Python profiler of omnitrace (libpyomnitrace.cpp)\<close>

text \<open>
  The theory embeds \<^verbatim>\<open>source/python/libpyomnitrace.cpp\<close>: the configuration record, the
  per-thread configuration (\<^verbatim>\<open>get_config\<close>), the trace callback (\<^verbatim>\<open>profiler_function\<close>) and
  the control surface registered by \<^verbatim>\<open>generate\<close> (\<^verbatim>\<open>profiler_init\<close>, \<^verbatim>\<open>profiler_finalize\<close>,
  the property setters).

  What lies outside the file is a parameter or a piece of data of the model:
  \<^item> \<^verbatim>\<open>std::regex\<close>: a function \<open>rx pattern name\<close>, \<open>None\<close> when constructing the regular
    expression throws \<^verbatim>\<open>std::regex_error\<close>, otherwise the result of \<^verbatim>\<open>std::regex_search\<close>;
  \<^item> the sink (\<^verbatim>\<open>omnitrace_push_region\<close>, \<^verbatim>\<open>omnitrace_pop_region\<close>): the list of the calls made;
  \<^item> the interpreter: a frame carries what the callback reads from it, the result of
    formatting its arguments, and the events the interpreter sends to the callback while
    the arguments are being formatted;
  \<^item> diagnostic output to stderr is not part of the state.
  Operations of different threads are interleaved as whole calls.
\<close>

subsection \<open>Data\<close>

type_synonym tid = nat

text \<open>
  \<^verbatim>\<open>strset_t = std::unordered_set<std::string>\<close>. The list has no duplicates and is read
  as the order in which the set is iterated, which the standard leaves open; a new element
  is put at the front. The order only decides which of a malformed and a matching pattern
  \<^verbatim>\<open>_find_matching\<close> meets first.
\<close>

type_synonym strset_t = "string list"

definition strset_insert :: "string \<Rightarrow> strset_t \<Rightarrow> strset_t" where
  "strset_insert x xs = (if x \<in> set xs then xs else x # xs)"

text \<open>
  \<^verbatim>\<open>profiler_t\<close> is a pair of closures that both capture a reference to the interned label:
  the first calls \<^verbatim>\<open>omnitrace_push_region\<close> on it, the second \<^verbatim>\<open>omnitrace_pop_region\<close>.
\<close>

datatype sink_call = Push_region string | Pop_region string

datatype profiler_t = Profiler (label_ref: string)

definition first_action :: "profiler_t \<Rightarrow> sink_call" where
  "first_action p = Push_region (label_ref p)"

definition second_action :: "profiler_t \<Rightarrow> sink_call" where
  "second_action p = Pop_region (label_ref p)"

type_synonym profiler_vec_t = "profiler_t list"
type_synonym profiler_label_map_t = "string \<rightharpoonup> profiler_vec_t"
type_synonym profiler_index_map_t = "32 word \<rightharpoonup> profiler_label_map_t"

record config =
  is_running :: bool
  trace_c :: bool
  include_internal :: bool
  include_args :: bool
  include_line :: bool
  include_filename :: bool
  full_filepath :: bool
  ignore_stack_depth :: "32 word"
  base_stack_depth :: "32 word"
  base_module_path :: string
  include_functions :: strset_t
  include_filenames :: strset_t
  exclude_functions :: strset_t
  exclude_filenames :: strset_t
  records :: profiler_index_map_t
  verbose :: "32 word"

text \<open>The member initialisers of \<^verbatim>\<open>struct config\<close>: the value of \<^verbatim>\<open>config{}\<close>.\<close>

definition default_config :: config where
  "default_config =
     \<lparr> is_running = False, trace_c = False, include_internal = False, include_args = False,
       include_line = False, include_filename = False, full_filepath = False,
       ignore_stack_depth = 0, base_stack_depth = - 1, base_module_path = [],
       include_functions = [], include_filenames = [],
       exclude_functions =
         [''^(FILE|FUNC|LINE)$'', ''^get_fcode$'',
          ''^_(_exit__|handle_fromlist|shutdown|get_sep)$'', ''^is(function|class)$'',
          ''^basename$'', ''^<.*>$''],
       exclude_filenames =
         [''(__init__|__main__|functools|encoder|decoder|_pylab_helpers|threading).py$'',
          ''^<.*>$''],
       records = Map.empty, verbose = 0 \<rparr>"

text \<open>
  The copy made for every thread but the first in \<^verbatim>\<open>get_config\<close>: a fresh \<^verbatim>\<open>config{}\<close> with
  thirteen fields assigned from the process-wide instance. \<^verbatim>\<open>ignore_stack_depth\<close>,
  \<^verbatim>\<open>base_stack_depth\<close> and \<^verbatim>\<open>records\<close> keep their defaults.
\<close>

definition copy_config :: "config \<Rightarrow> config" where
  "copy_config inst =
     default_config
       \<lparr> is_running := is_running inst, trace_c := trace_c inst,
         include_internal := include_internal inst, include_args := include_args inst,
         include_line := include_line inst, include_filename := include_filename inst,
         full_filepath := full_filepath inst, base_module_path := base_module_path inst,
         include_functions := include_functions inst,
         include_filenames := include_filenames inst,
         exclude_functions := exclude_functions inst,
         exclude_filenames := exclude_filenames inst, verbose := verbose inst \<rparr>"

text \<open>
  The thread-local pointer \<^verbatim>\<open>_tl_instance\<close> of \<^verbatim>\<open>get_config\<close>: either the process-wide
  \<^verbatim>\<open>_instance\<close> itself, or the object \<^verbatim>\<open>_tmp\<close> allocated for this thread, which no other
  pointer reaches and which is therefore kept by value.
\<close>

datatype tl_instance_t = Points_to_instance | Points_to_tmp config

text \<open>The thread-local statics of \<^verbatim>\<open>profiler_function\<close>.\<close>

record thread_locals =
  disable :: bool
  labels :: strset_t
  depth_tracker :: "32 word"

definition initial_thread_locals :: thread_locals where
  "initial_thread_locals = \<lparr> disable = False, labels = [], depth_tracker = 0 \<rparr>"

text \<open>
  The state of the process: \<^verbatim>\<open>_instance\<close> and \<^verbatim>\<open>_count\<close> of \<^verbatim>\<open>get_config\<close>, the thread-local
  pointer of every thread (\<open>None\<close> before its initialiser ran), the process-wide static
  \<^verbatim>\<open>_omnitrace_path\<close> of \<^verbatim>\<open>profiler_function\<close> (\<open>None\<close> before its initialiser ran), the
  thread-local statics, and the calls received by the sink.
\<close>

record world =
  proc_instance :: config
  count :: "32 word"
  tl_instance :: "tid \<rightharpoonup> tl_instance_t"
  omnitrace_path :: "string option"
  tls :: "tid \<Rightarrow> thread_locals"
  sink :: "sink_call list"

definition initial_world :: world where
  "initial_world =
     \<lparr> proc_instance = default_config, count = 0, tl_instance = Map.empty,
       omnitrace_path = None, tls = (\<lambda>_. initial_thread_locals), sink = [] \<rparr>"

datatype error = Regex_error | Error_already_set | Cast_error

datatype outcome = Returned | Raised error

subsection \<open>get\_config\<close>

text \<open>
  The initialiser of \<^verbatim>\<open>_tl_instance\<close> runs at the first call on a thread: the thread that
  draws 0 from the counter gets \<^verbatim>\<open>_instance\<close>, every other thread a copy. The counter is
  an \<^verbatim>\<open>uint32_t\<close> and wraps.
\<close>

definition get_config :: "tid \<Rightarrow> world \<Rightarrow> world" where
  "get_config t w =
     (case tl_instance w t of
        Some _ \<Rightarrow> w
      | None \<Rightarrow>
          let cnt = count w; w' = w\<lparr>count := cnt + 1\<rparr> in
          if cnt = 0 then w'\<lparr>tl_instance := (tl_instance w')(t \<mapsto> Points_to_instance)\<rparr>
          else w'\<lparr>tl_instance :=
                    (tl_instance w')(t \<mapsto> Points_to_tmp (copy_config (proc_instance w')))\<rparr>)"

text \<open>
  Reading and writing through the reference that \<^verbatim>\<open>get_config\<close> returns on thread \<open>t\<close>.
  Both are used after \<open>get_config t\<close>, so the pointer is set.
\<close>

definition the_config :: "world \<Rightarrow> tid \<Rightarrow> config" where
  "the_config w t =
     (case tl_instance w t of Some (Points_to_tmp c) \<Rightarrow> c | _ \<Rightarrow> proc_instance w)"

definition put_config :: "tid \<Rightarrow> config \<Rightarrow> world \<Rightarrow> world" where
  "put_config t c w =
     (case tl_instance w t of
        Some (Points_to_tmp _) \<Rightarrow> w\<lparr>tl_instance := (tl_instance w)(t \<mapsto> Points_to_tmp c)\<rparr>
      | _ \<Rightarrow> w\<lparr>proc_instance := c\<rparr>)"

subsection \<open>Strings\<close>

text \<open>\<^verbatim>\<open>std::string::find_last_of(c)\<close>; \<open>None\<close> is \<^verbatim>\<open>npos\<close>.\<close>

fun find_last_of :: "string \<Rightarrow> char \<Rightarrow> nat option" where
  "find_last_of [] c = None"
| "find_last_of (x # xs) c =
     (case find_last_of xs c of
        Some i \<Rightarrow> Some (Suc i)
      | None \<Rightarrow> if x = c then Some 0 else None)"

text \<open>\<^verbatim>\<open>_get_basename\<close>: the part after the last slash, the whole path when it has none.\<close>

definition get_basename :: "string \<Rightarrow> string" where
  "get_basename fullpath =
     (case find_last_of fullpath CHR ''/'' of
        None \<Rightarrow> fullpath
      | Some i \<Rightarrow> drop (i + 1) fullpath)"

text \<open>The directory part computed in \<^verbatim>\<open>_init\<close>: \<^verbatim>\<open>_file.substr(0, _file.find_last_of('/'))\<close>.\<close>

definition dirname :: "string \<Rightarrow> string" where
  "dirname file =
     (case find_last_of file CHR ''/'' of
        None \<Rightarrow> file
      | Some i \<Rightarrow> take i file)"

text \<open>
  \<^verbatim>\<open>strncmp(s1, s2, n) == 0\<close> on the \<^verbatim>\<open>c_str()\<close> of two strings: at most \<open>n\<close> characters are
  compared, the end of a string reads as the terminating NUL, and the comparison stops at
  the first NUL.
\<close>

fun strncmp_eq :: "string \<Rightarrow> string \<Rightarrow> nat \<Rightarrow> bool" where
  "strncmp_eq s1 s2 0 = True"
| "strncmp_eq s1 s2 (Suc n) =
     (let c1 = (case s1 of [] \<Rightarrow> CHR 0x00 | c # _ \<Rightarrow> c);
          c2 = (case s2 of [] \<Rightarrow> CHR 0x00 | c # _ \<Rightarrow> c)
      in if c1 \<noteq> c2 then False
         else if c1 = CHR 0x00 then True
         else strncmp_eq (tl s1) (tl s2) n)"

text \<open>Decimal output of an \<^verbatim>\<open>int\<close> by \<^verbatim>\<open>operator<<\<close>.\<close>

definition digit_char :: "nat \<Rightarrow> char" where
  "digit_char d = ''0123456789'' ! d"

fun show_nat :: "nat \<Rightarrow> string" where
  "show_nat n = (if n < 10 then [digit_char n] else show_nat (n div 10) @ [digit_char (n mod 10)])"

declare show_nat.simps [simp del]

definition show_int :: "int \<Rightarrow> string" where
  "show_int i = (if i < 0 then CHR ''-'' # show_nat (nat (- i)) else show_nat (nat i))"

subsection \<open>The interpreter's side of an event\<close>

text \<open>
  What \<^verbatim>\<open>inspect.formatargvalues(*inspect.getargvalues(frame))\<close> gives: a string, an
  \<^verbatim>\<open>AttributeError\<close>, or another Python error.
\<close>

datatype args_result = Args string | Attribute_error | Other_error

text \<open>
  A frame: \<^verbatim>\<open>f_code->co_name\<close>, \<^verbatim>\<open>f_code->co_filename\<close>, \<^verbatim>\<open>f_lineno\<close>, the result of formatting
  its arguments, and the trace events (frame and kind) that the interpreter delivers to
  \<^verbatim>\<open>profiler_function\<close> on the same thread while \<^verbatim>\<open>_get_args\<close> runs Python code.
\<close>

datatype frame =
  Frame (co_name: string) (co_filename: string) (f_lineno: int)
        (formatargvalues: args_result) (reentry: "(frame option \<times> string) list")

subsection \<open>profiler\_function\<close>

text \<open>
  The four kinds of event that \<^verbatim>\<open>profiler_function\<close> supports; \<open>None\<close> is the \<^verbatim>\<open>-1\<close> of the
  source. \<^verbatim>\<open>swhat\<close> is a C string, compared by \<^verbatim>\<open>strcmp\<close>.
\<close>

datatype what_t = PyTrace_CALL | PyTrace_C_CALL | PyTrace_RETURN | PyTrace_C_RETURN

definition what_of :: "string \<Rightarrow> what_t option" where
  "what_of swhat =
     (if swhat = ''call'' then Some PyTrace_CALL
      else if swhat = ''c_call'' then Some PyTrace_C_CALL
      else if swhat = ''return'' then Some PyTrace_RETURN
      else if swhat = ''c_return'' then Some PyTrace_C_RETURN
      else None)"

text \<open>
  \<^verbatim>\<open>_find_matching\<close>: the patterns are tried in the order of iteration; each is compiled
  (which may throw) and searched for in the name, and the first match ends the loop.
\<close>

fun find_matching ::
  "(string \<Rightarrow> string \<Rightarrow> bool option) \<Rightarrow> strset_t \<Rightarrow> string \<Rightarrow> error + bool" where
  "find_matching rx [] name = Inr False"
| "find_matching rx (itr # expr) name =
     (case rx itr name of
        None \<Rightarrow> Inl Regex_error
      | Some True \<Rightarrow> Inr True
      | Some False \<Rightarrow> find_matching rx expr name)"

text \<open>
  The filters of \<^verbatim>\<open>profiler_function\<close> between the function name and the label, in the
  order of the source: only-functions, skip-functions, the installation path, only-files,
  skip-files. \<open>Inr True\<close>: the event goes on; \<open>Inr False\<close>: the function returns;
  \<open>Inl\<close>: a regular expression threw. \<open>path\<close> is the value of \<^verbatim>\<open>_omnitrace_path\<close>.
\<close>

definition passes_filters ::
  "(string \<Rightarrow> string \<Rightarrow> bool option) \<Rightarrow> config \<Rightarrow> string \<Rightarrow> string \<Rightarrow> string \<Rightarrow> error + bool"
  where
  "passes_filters rx cfg path func full =
     (case (if include_functions cfg \<noteq> [] then find_matching rx (include_functions cfg) func
            else Inr True) of
        Inl e \<Rightarrow> Inl e
      | Inr False \<Rightarrow> Inr False
      | Inr True \<Rightarrow>
     (case find_matching rx (exclude_functions cfg) func of
        Inl e \<Rightarrow> Inl e
      | Inr True \<Rightarrow> Inr False
      | Inr False \<Rightarrow>
     if \<not> include_internal cfg \<and> strncmp_eq full path (length path) then Inr False
     else
     (case (if include_filenames cfg \<noteq> [] then find_matching rx (include_filenames cfg) full
            else Inr True) of
        Inl e \<Rightarrow> Inl e
      | Inr False \<Rightarrow> Inr False
      | Inr True \<Rightarrow>
     (case find_matching rx (exclude_filenames cfg) full of
        Inl e \<Rightarrow> Inl e
      | Inr True \<Rightarrow> Inr False
      | Inr False \<Rightarrow> Inr True))))"

text \<open>
  \<^verbatim>\<open>_get_args\<close>: Python code runs, during which the interpreter may call back
  (\<open>reenter\<close>); an \<^verbatim>\<open>AttributeError\<close> gives the empty string, any other error is thrown on.
\<close>

definition get_args :: "(world \<Rightarrow> world) \<Rightarrow> frame \<Rightarrow> world \<Rightarrow> (error + string) \<times> world" where
  "get_args reenter frame w =
     (let w' = reenter w in
      case formatargvalues frame of
        Args s \<Rightarrow> (Inr s, w')
      | Attribute_error \<Rightarrow> (Inr [], w')
      | Other_error \<Rightarrow> (Inl Error_already_set, w'))"

text \<open>
  \<^verbatim>\<open>_get_label\<close>, reading the configuration of thread \<open>t\<close> where the source reads \<^verbatim>\<open>_config\<close>.

  Modelled from the spec: \<^verbatim>\<open>TIMEMORY_JOIN\<close> is a macro of timemory that is not in this file;
  with the delimiter \<^verbatim>\<open>""\<close> it writes its arguments one after the other, an \<^verbatim>\<open>int\<close> in
  decimal.
\<close>

definition get_label ::
  "(world \<Rightarrow> world) \<Rightarrow> tid \<Rightarrow> frame \<Rightarrow> string \<Rightarrow> string \<Rightarrow> string \<Rightarrow> world
     \<Rightarrow> (error + string) \<times> world" where
  "get_label reenter t frame func filename fullpath w =
     (let bracket = include_filename (the_config w t);
          func1 = (if bracket then ''['' @ func else func);
          (ra, w1) = (if include_args (the_config w t) then get_args reenter frame w
                      else (Inr [], w))
      in case ra of
           Inl e \<Rightarrow> (Inl e, w1)
         | Inr args \<Rightarrow>
             let cfg = the_config w1 t;
                 func2 = func1 @ args;
                 func3 = (if bracket then func2 @ '']'' else func2);
                 func4 = (if include_filename cfg
                          then (if full_filepath cfg then func3 @ ''['' @ fullpath
                                else func3 @ ''['' @ filename)
                          else func3);
                 func5 = (if include_line cfg \<and> include_filename cfg
                          then func4 @ '':'' @ show_int (f_lineno frame) @ '']''
                          else if include_line cfg
                          then func4 @ '':'' @ show_int (f_lineno frame)
                          else if include_filename cfg then func4 @ '']''
                          else func4)
             in (Inr func5, w1))"

text \<open>
  The depth of the event and the new value of \<^verbatim>\<open>_depth_tracker\<close>:
  \<^verbatim>\<open>_fdepth = _depth_tracker++\<close> for a call, \<^verbatim>\<open>_fdepth = --_depth_tracker\<close> for a return.
  The counter is an \<^verbatim>\<open>int32_t\<close>; the model wraps where C++ leaves the overflow undefined.
\<close>

definition is_call :: "what_t \<Rightarrow> bool" where
  "is_call what = (what = PyTrace_CALL \<or> what = PyTrace_C_CALL)"

definition next_depth :: "what_t \<Rightarrow> 32 word \<Rightarrow> 32 word \<times> 32 word" where
  "next_depth what tracker =
     (if is_call what then (tracker, tracker + 1) else (tracker - 1, tracker - 1))"

text \<open>
  \<^verbatim>\<open>_profiler_call\<close>: \<^verbatim>\<open>records[_fdepth][_label]\<close> creates what is missing, a handle bound to
  the interned label is appended and its first closure runs.
\<close>

definition profiler_call :: "tid \<Rightarrow> 32 word \<Rightarrow> string \<Rightarrow> world \<Rightarrow> world" where
  "profiler_call t fdepth label w =
     (let cfg = the_config w t;
          by_label = (case records cfg fdepth of None \<Rightarrow> Map.empty | Some m \<Rightarrow> m);
          entry = (case by_label label of None \<Rightarrow> [] | Some v \<Rightarrow> v);
          entry' = entry @ [Profiler label];
          w' = put_config t (cfg\<lparr>records := (records cfg)(fdepth \<mapsto> by_label(label \<mapsto> entry'))\<rparr>) w
      in w'\<lparr>sink := sink w' @ [first_action (last entry')]\<rparr>)"

text \<open>
  \<^verbatim>\<open>_profiler_return\<close>: three lookups that return when they find nothing; otherwise the
  second closure of the last handle runs and the handle is removed.
\<close>

definition profiler_return :: "tid \<Rightarrow> 32 word \<Rightarrow> string \<Rightarrow> world \<Rightarrow> world" where
  "profiler_return t fdepth label w =
     (let cfg = the_config w t in
      case records cfg fdepth of
        None \<Rightarrow> w
      | Some by_label \<Rightarrow>
          (case by_label label of
             None \<Rightarrow> w
           | Some entry \<Rightarrow>
               if entry = [] then w
               else
                 let w' = w\<lparr>sink := sink w @ [second_action (last entry)]\<rparr>
                 in put_config t
                      (cfg\<lparr>records := (records cfg)(fdepth \<mapsto> by_label(label \<mapsto> butlast entry))\<rparr>)
                      w'))"

text \<open>
  From the interning of the label to the end of \<^verbatim>\<open>profiler_function\<close>:
  \<^verbatim>\<open>_labels.emplace\<close>, the depth, and the call or return action.
\<close>

definition record_event :: "tid \<Rightarrow> what_t \<Rightarrow> string \<Rightarrow> world \<Rightarrow> world" where
  "record_event t what label w =
     (let tl0 = tls w t;
          tl1 = tl0\<lparr>labels := strset_insert label (labels tl0)\<rparr>;
          (fdepth, tracker) = next_depth what (depth_tracker tl1);
          w1 = w\<lparr>tls := (tls w)(t := tl1\<lparr>depth_tracker := tracker\<rparr>)\<rparr>
      in if is_call what then profiler_call t fdepth label w1
         else profiler_return t fdepth label w1)"

text \<open>
  The initialiser of the function-local static \<^verbatim>\<open>_omnitrace_path\<close>: it runs the first time
  control reaches the declaration, on whatever thread that is, and copies the
  \<^verbatim>\<open>base_module_path\<close> of that thread's configuration.
\<close>

definition init_omnitrace_path :: "tid \<Rightarrow> world \<Rightarrow> string \<times> world" where
  "init_omnitrace_path t w =
     (case omnitrace_path w of
        Some p \<Rightarrow> (p, w)
      | None \<Rightarrow>
          (let p = base_module_path (the_config w t) in (p, w\<lparr>omnitrace_path := Some p\<rparr>)))"

text \<open>
  The body of \<^verbatim>\<open>profiler_function\<close> for a frame that is not \<^verbatim>\<open>None\<close>, from the declaration
  of \<^verbatim>\<open>_omnitrace_path\<close> on.

  Modelled from the spec: \<^verbatim>\<open>TIMEMORY_CONDITIONAL_PRINT_HERE\<close> is a macro of timemory that is
  not in this file; it evaluates its arguments, here \<^verbatim>\<open>_get_args()\<close>, only when its
  condition \<^verbatim>\<open>_config.verbose > 3\<close> holds.
\<close>

definition profiler_body ::
  "(string \<Rightarrow> string \<Rightarrow> bool option) \<Rightarrow> (world \<Rightarrow> world) \<Rightarrow> tid \<Rightarrow> frame \<Rightarrow> string \<Rightarrow> world
     \<Rightarrow> outcome \<times> world" where
  "profiler_body rx reenter t frame swhat w0 =
     (let (path, w) = init_omnitrace_path t w0 in
      (case what_of swhat of
         None \<Rightarrow> (Returned, w)
       | Some what \<Rightarrow>
          (let cfg = the_config w t in
           if \<not> trace_c cfg \<and> (what = PyTrace_C_CALL \<or> what = PyTrace_C_RETURN)
           then (Returned, w)
           else
            (let func = co_name frame;
                 full = co_filename frame;
                 file = get_basename full
             in (case passes_filters rx cfg path func full of
                   Inl e \<Rightarrow> (Raised e, w)
                 | Inr False \<Rightarrow> (Returned, w)
                 | Inr True \<Rightarrow>
                    (let (rp, w1) = (if 3 < sint (verbose cfg) then get_args reenter frame w
                                     else (Inr [], w))
                     in (case rp of
                           Inl e \<Rightarrow> (Raised e, w1)
                         | Inr _ \<Rightarrow>
                            (let (rl, w2) = get_label reenter t frame func file full w1
                             in (case rl of
                                   Inl e \<Rightarrow> (Raised e, w2)
                                 | Inr label \<Rightarrow>
                                     if label = [] then (Returned, w2)
                                     else (Returned, record_event t what label w2))))))))))"

text \<open>
  \<^verbatim>\<open>profiler_function\<close>. The thread-local reference \<^verbatim>\<open>_config\<close> is bound by \<^verbatim>\<open>get_config()\<close>
  at the first call on the thread. \<^verbatim>\<open>_disable\<close> is set, and the destructor of \<^verbatim>\<open>_dtor\<close>
  clears it however the function is left. The third parameter \<^verbatim>\<open>arg\<close> is not used. The
  events of \<open>reentry\<close> are calls of \<^verbatim>\<open>profiler_function\<close> itself on this thread.
\<close>

definition set_disable :: "tid \<Rightarrow> bool \<Rightarrow> world \<Rightarrow> world" where
  "set_disable t b w = w\<lparr>tls := (tls w)(t := (tls w t)\<lparr>disable := b\<rparr>)\<rparr>"

text \<open>
  Two facts for the termination of the recursion through the events of \<open>reentry\<close>: the body
  uses its callback only by applying it, and a frame delivered during \<open>reentry\<close> is
  smaller than the frame that carries it.
\<close>

lemma profiler_body_cong [fundef_cong]:
  assumes "\<And>wr. reenter wr = reenter' wr"
    and "t = t'" and "frame = frame'" and "swhat = swhat'" and "w = w'"
  shows "profiler_body rx reenter t frame swhat w = profiler_body rx reenter' t' frame' swhat' w'"
proof -
  from assms(1) have "reenter = reenter'"
    by (simp add: fun_eq_iff)
  with assms(2-5) show ?thesis
    by simp
qed

lemma reentry_size:
  assumes "(a, b) \<in> set (reentry frame)"
  shows "size_option size a < size frame"
proof (cases frame)
  case (Frame n f l r evs)
  with assms have "(a, b) \<in> set evs"
    by simp
  then have "size_prod (size_option size) (\<lambda>_. 0) (a, b)
      \<le> size_list (size_prod (size_option size) (\<lambda>_. 0)) evs"
    by (simp add: size_list_estimation')
  with Frame show ?thesis
    by simp
qed

function profiler_function ::
  "(string \<Rightarrow> string \<Rightarrow> bool option) \<Rightarrow> tid \<Rightarrow> frame option \<Rightarrow> string \<Rightarrow> world
     \<Rightarrow> outcome \<times> world" where
  "profiler_function rx t None swhat w =
     (let w0 = get_config t w in
      if disable (tls w0 t) then (Returned, w0)
      else (Returned, set_disable t False (set_disable t True w0)))"
| "profiler_function rx t (Some frame) swhat w =
     (let w0 = get_config t w in
      if disable (tls w0 t) then (Returned, w0)
      else
        let (r, w1) =
              profiler_body rx
                (\<lambda>wr. fold (\<lambda>ev w'. snd (profiler_function rx t (fst ev) (snd ev) w'))
                        (reentry frame) wr)
                t frame swhat (set_disable t True w0)
        in (r, set_disable t False w1))"
  by pat_completeness auto
termination
  by (relation "measure (\<lambda>(rx, t, pframe, swhat, w). size_option size pframe)")
     (auto dest: reentry_size)

declare profiler_function.simps [simp del]

subsection \<open>The control surface of generate\<close>

text \<open>
  What \<^verbatim>\<open>py::module::import("omnitrace").attr("__file__").cast<std::string>()\<close> gives in
  \<^verbatim>\<open>_init\<close>: a string, a \<^verbatim>\<open>py::cast_error\<close> (caught and reported), or a Python error, which
  \<^verbatim>\<open>_init\<close> does not catch.
\<close>

datatype file_result = File string | File_cast_error | File_error

text \<open>
  \<^verbatim>\<open>_init\<close>, registered as \<^verbatim>\<open>profiler_init\<close>: the directory of the module is stored in
  \<^verbatim>\<open>base_module_path\<close> first; then, unless the profiler is running, the records are
  cleared, \<^verbatim>\<open>base_stack_depth\<close> is reset and \<^verbatim>\<open>is_running\<close> is set.
\<close>

definition profiler_init :: "file_result \<Rightarrow> tid \<Rightarrow> world \<Rightarrow> outcome \<times> world" where
  "profiler_init file t w =
     (case file of
        File_error \<Rightarrow> (Raised Error_already_set, w)
      | _ \<Rightarrow>
          let w1 = (case file of
                      File f \<Rightarrow>
                        let w' = get_config t w
                        in put_config t ((the_config w' t)\<lparr>base_module_path := dirname f\<rparr>) w'
                    | _ \<Rightarrow> w);
              w2 = get_config t w1;
              cfg = the_config w2 t
          in if is_running cfg then (Returned, w2)
             else (Returned,
                   put_config t
                     (cfg\<lparr>records := Map.empty, base_stack_depth := - 1, is_running := True\<rparr>)
                     w2))"

text \<open>\<^verbatim>\<open>_fini\<close>, registered as \<^verbatim>\<open>profiler_finalize\<close>.\<close>

definition profiler_finalize :: "tid \<Rightarrow> world \<Rightarrow> world" where
  "profiler_finalize t w =
     (let w' = get_config t w; cfg = the_config w' t
      in if \<not> is_running cfg then w'
         else put_config t
                (cfg\<lparr>is_running := False, base_stack_depth := - 1, records := Map.empty\<rparr>) w')"

text \<open>
  The setter of \<^verbatim>\<open>CONFIGURATION_PROPERTY\<close>: \<^verbatim>\<open>get_config().FIELD = val\<close>, where \<open>upd\<close> is the
  assignment to the field. The source instantiates it for \<^verbatim>\<open>is_running\<close>, \<^verbatim>\<open>trace_c\<close>,
  \<^verbatim>\<open>include_internal\<close>, \<^verbatim>\<open>include_args\<close>, \<^verbatim>\<open>include_line\<close>, \<^verbatim>\<open>include_filename\<close>,
  \<^verbatim>\<open>full_filepath\<close> and \<^verbatim>\<open>verbose\<close>.
\<close>

definition configuration_property_set :: "(config \<Rightarrow> config) \<Rightarrow> tid \<Rightarrow> world \<Rightarrow> world" where
  "configuration_property_set upd t w =
     (let w' = get_config t w in put_config t (upd (the_config w' t)) w')"

definition set_trace_c :: "bool \<Rightarrow> tid \<Rightarrow> world \<Rightarrow> world" where
  "set_trace_c val = configuration_property_set (\<lambda>c. c\<lparr>trace_c := val\<rparr>)"

definition set_include_internal :: "bool \<Rightarrow> tid \<Rightarrow> world \<Rightarrow> world" where
  "set_include_internal val = configuration_property_set (\<lambda>c. c\<lparr>include_internal := val\<rparr>)"

text \<open>
  An element of the \<^verbatim>\<open>py::list\<close> given to a pattern-set setter: a string, or an object
  whose \<^verbatim>\<open>cast<std::string>()\<close> throws.
\<close>

datatype pyobj = Py_str string | Py_other

text \<open>
  \<^verbatim>\<open>_set_strset\<close>: every element of the list is cast and inserted into the target. A cast
  that throws ends the loop, with the earlier elements inserted.
\<close>

fun set_strset :: "pyobj list \<Rightarrow> strset_t \<Rightarrow> outcome \<times> strset_t" where
  "set_strset [] targ = (Returned, targ)"
| "set_strset (Py_str s # inp) targ = set_strset inp (strset_insert s targ)"
| "set_strset (Py_other # inp) targ = (Raised Cast_error, targ)"

text \<open>
  The setter of \<^verbatim>\<open>CONFIGURATION_STRSET\<close>: \<^verbatim>\<open>_set_strset(val, get_config().FIELD)\<close>, for the four
  pattern sets.
\<close>

definition configuration_strset_set ::
  "(config \<Rightarrow> strset_t) \<Rightarrow> (strset_t \<Rightarrow> config \<Rightarrow> config) \<Rightarrow> pyobj list \<Rightarrow> tid \<Rightarrow> world
     \<Rightarrow> outcome \<times> world" where
  "configuration_strset_set field assign val t w =
     (let w' = get_config t w;
          cfg = the_config w' t;
          (r, targ) = set_strset val (field cfg)
      in (r, put_config t (assign targ cfg) w'))"

definition set_only_functions :: "pyobj list \<Rightarrow> tid \<Rightarrow> world \<Rightarrow> outcome \<times> world" where
  "set_only_functions =
     configuration_strset_set include_functions (\<lambda>s c. c\<lparr>include_functions := s\<rparr>)"

definition set_only_filenames :: "pyobj list \<Rightarrow> tid \<Rightarrow> world \<Rightarrow> outcome \<times> world" where
  "set_only_filenames =
     configuration_strset_set include_filenames (\<lambda>s c. c\<lparr>include_filenames := s\<rparr>)"

definition set_skip_functions :: "pyobj list \<Rightarrow> tid \<Rightarrow> world \<Rightarrow> outcome \<times> world" where
  "set_skip_functions =
     configuration_strset_set exclude_functions (\<lambda>s c. c\<lparr>exclude_functions := s\<rparr>)"

definition set_skip_filenames :: "pyobj list \<Rightarrow> tid \<Rightarrow> world \<Rightarrow> outcome \<times> world" where
  "set_skip_filenames =
     configuration_strset_set exclude_filenames (\<lambda>s c. c\<lparr>exclude_filenames := s\<rparr>)"

text \<open>The getters return the elements of the set as a list.\<close>

definition configuration_strset_get :: "(config \<Rightarrow> strset_t) \<Rightarrow> tid \<Rightarrow> world \<Rightarrow> string list \<times> world"
  where
  "configuration_strset_get field t w = (let w' = get_config t w in (field (the_config w' t), w'))"

section \<open>Notions for the statements and the proofs\<close>

subsection \<open>The callback without its nested calls\<close>

text \<open>
  A thread is dispatching when its flag \<^verbatim>\<open>_disable\<close> is set; its configuration then exists,
  since the flag is only set after \<^verbatim>\<open>_config\<close> was bound.
\<close>

definition dispatching :: "tid \<Rightarrow> world \<Rightarrow> bool" where
  "dispatching t w \<longleftrightarrow> disable (tls w t) \<and> tl_instance w t \<noteq> None"

text \<open>
  Once the nested calls are shown to change nothing, the result of \<^verbatim>\<open>_get_args\<close>, the
  label and the path through the filters are functions of the configuration, the captured
  installation path and the frame: \<open>args_of\<close> is \<^verbatim>\<open>_get_args\<close>, \<open>label_of\<close> is
  \<^verbatim>\<open>_get_label\<close>, \<open>decide\<close> is \<^verbatim>\<open>profiler_function\<close> from the classification of the event
  to the test of the label, and \<open>finish\<close> is what follows. The lemmas
  \<open>get_args_noop\<close>, \<open>get_label_label_of\<close>, \<open>profiler_body_decide\<close> and
  \<open>profiler_function_finish\<close> tie them to the functions of the model.
\<close>

definition args_of :: "frame \<Rightarrow> error + string" where
  "args_of frame =
     (case formatargvalues frame of
        Args s \<Rightarrow> Inr s
      | Attribute_error \<Rightarrow> Inr []
      | Other_error \<Rightarrow> Inl Error_already_set)"

definition label_of :: "config \<Rightarrow> frame \<Rightarrow> string \<Rightarrow> string \<Rightarrow> string \<Rightarrow> error + string" where
  "label_of cfg frame func filename fullpath =
     (case (if include_args cfg then args_of frame else Inr []) of
        Inl e \<Rightarrow> Inl e
      | Inr args \<Rightarrow>
          Inr ((if include_filename cfg then ''['' @ func @ args @ '']'' else func @ args)
               @ (if include_filename cfg
                  then ''['' @ (if full_filepath cfg then fullpath else filename) else [])
               @ (if include_line cfg \<and> include_filename cfg
                  then '':'' @ show_int (f_lineno frame) @ '']''
                  else if include_line cfg then '':'' @ show_int (f_lineno frame)
                  else if include_filename cfg then '']'' else [])))"

datatype decision = Rejected | Throws error | Accepted what_t string

definition decide ::
  "(string \<Rightarrow> string \<Rightarrow> bool option) \<Rightarrow> config \<Rightarrow> string \<Rightarrow> frame \<Rightarrow> string \<Rightarrow> decision" where
  "decide rx cfg path frame swhat =
     (case what_of swhat of
        None \<Rightarrow> Rejected
      | Some what \<Rightarrow>
          if \<not> trace_c cfg \<and> (what = PyTrace_C_CALL \<or> what = PyTrace_C_RETURN) then Rejected
          else
            (case passes_filters rx cfg path (co_name frame) (co_filename frame) of
               Inl e \<Rightarrow> Throws e
             | Inr False \<Rightarrow> Rejected
             | Inr True \<Rightarrow>
                 (case (if 3 < sint (verbose cfg) then args_of frame else Inr []) of
                    Inl e \<Rightarrow> Throws e
                  | Inr _ \<Rightarrow>
                      (case label_of cfg frame (co_name frame)
                              (get_basename (co_filename frame)) (co_filename frame) of
                         Inl e \<Rightarrow> Throws e
                       | Inr label \<Rightarrow> if label = [] then Rejected else Accepted what label))))"

definition finish :: "tid \<Rightarrow> decision \<Rightarrow> world \<Rightarrow> outcome \<times> world" where
  "finish t d w =
     (case d of
        Rejected \<Rightarrow> (Returned, w)
      | Throws e \<Rightarrow> (Raised e, w)
      | Accepted what label \<Rightarrow> (Returned, record_event t what label w))"

subsection \<open>Sequences of events\<close>

text \<open>
  The counter after a sequence of events that reached the depth computation, and the
  sequences that close \<open>n\<close> calls opened before them and every call they open
  themselves, never closing more calls than are open: with \<open>n = 0\<close>, the sequences in
  which calls and returns are matched.
\<close>

fun run_tracker :: "what_t list \<Rightarrow> 32 word \<Rightarrow> 32 word" where
  "run_tracker [] tracker = tracker"
| "run_tracker (what # evs) tracker = run_tracker evs (snd (next_depth what tracker))"

fun balanced :: "nat \<Rightarrow> what_t list \<Rightarrow> bool" where
  "balanced n [] = (n = 0)"
| "balanced n (what # evs) =
     (if is_call what then balanced (Suc n) evs else 0 < n \<and> balanced (n - 1) evs)"

text \<open>
  An event reaches the depth computation of \<^verbatim>\<open>profiler_function\<close> when the flag of the thread
  is clear, the frame is not \<^verbatim>\<open>None\<close> and the decision is to accept it: \<open>reached\<close> then
  gives its kind and its label. \<open>run_events\<close> delivers a sequence of events to
  \<^verbatim>\<open>profiler_function\<close> on one thread, one after the other, whatever each call returns or
  throws, and \<open>counted\<close> lists the kinds of the events of the sequence that reach the depth
  computation, each judged in the state in which it is delivered.
\<close>

definition reached ::
  "(string \<Rightarrow> string \<Rightarrow> bool option) \<Rightarrow> tid \<Rightarrow> frame option \<Rightarrow> string \<Rightarrow> world
     \<Rightarrow> (what_t \<times> string) option" where
  "reached rx t pframe swhat w =
     (case pframe of
        None \<Rightarrow> None
      | Some frame \<Rightarrow>
          if disable (tls w t) then None
          else
            (case decide rx (the_config (get_config t w) t)
                    (fst (init_omnitrace_path t (get_config t w))) frame swhat of
               Accepted what label \<Rightarrow> Some (what, label)
             | _ \<Rightarrow> None))"

fun run_events ::
  "(string \<Rightarrow> string \<Rightarrow> bool option) \<Rightarrow> tid \<Rightarrow> (frame option \<times> string) list \<Rightarrow> world \<Rightarrow> world" where
  "run_events rx t [] w = w"
| "run_events rx t (ev # evs) w =
     run_events rx t evs (snd (profiler_function rx t (fst ev) (snd ev) w))"

fun counted ::
  "(string \<Rightarrow> string \<Rightarrow> bool option) \<Rightarrow> tid \<Rightarrow> (frame option \<times> string) list \<Rightarrow> world
     \<Rightarrow> what_t list" where
  "counted rx t [] w = []"
| "counted rx t (ev # evs) w =
     (case reached rx t (fst ev) (snd ev) w of None \<Rightarrow> [] | Some (what, label) \<Rightarrow> [what])
     @ counted rx t evs (snd (profiler_function rx t (fst ev) (snd ev) w))"

subsection \<open>The records\<close>

text \<open>
  A depth and a label have no open region when the records have no entry for the depth,
  or that entry has none for the label, or the vector found there is empty.
\<close>

definition no_open_region :: "profiler_index_map_t \<Rightarrow> 32 word \<Rightarrow> string \<Rightarrow> bool" where
  "no_open_region recs fdepth label =
     (case recs fdepth of
        None \<Rightarrow> True
      | Some by_label \<Rightarrow> (case by_label label of None \<Rightarrow> True | Some entry \<Rightarrow> entry = []))"

subsection \<open>Aliasing of configurations\<close>

text \<open>A thread owns a copy when its pointer designates an object of its own.\<close>

definition owns_copy :: "world \<Rightarrow> tid \<Rightarrow> bool" where
  "owns_copy w t \<longleftrightarrow> (case tl_instance w t of Some (Points_to_tmp _) \<Rightarrow> True | _ \<Rightarrow> False)"

subsection \<open>Values for the examples\<close>

text \<open>
  A regular-expression engine for the examples, under which nothing matches. The examples
  use the default patterns on the names \<^verbatim>\<open>foo\<close> and \<^verbatim>\<open>/home/user/app.py\<close>, where
  \<^verbatim>\<open>std::regex_search\<close> finds no match either.
\<close>

definition no_match :: "string \<Rightarrow> string \<Rightarrow> bool option" where
  "no_match pattern name = Some False"

definition app_frame :: frame where
  "app_frame = Frame ''foo'' ''/home/user/app.py'' 3 (Args ''(x=1)'') []"

definition bar_frame :: frame where
  "bar_frame = Frame ''foo'' ''/src/bar.py'' 10 (Args ''(x=1)'') []"

definition failing_frame :: frame where
  "failing_frame = Frame ''foo'' ''/home/user/app.py'' 3 Other_error [(Some app_frame, ''call'')]"

definition with_flags :: "bool \<Rightarrow> bool \<Rightarrow> world" where
  "with_flags fname line =
     configuration_property_set (\<lambda>c. c\<lparr>include_line := line\<rparr>) 0
       (configuration_property_set (\<lambda>c. c\<lparr>include_filename := fname\<rparr>) 0 initial_world)"

definition busy_world :: world where
  "busy_world = set_disable 0 True (get_config 0 initial_world)"

definition args_world :: world where
  "args_world =
     configuration_property_set (\<lambda>c. c\<lparr>include_args := True\<rparr>) 0
       (set_include_internal True 0 initial_world)"

definition running_world :: world where
  "running_world = snd (profiler_init (File ''/opt/omnitrace/__init__.py'') 0 initial_world)"

definition traced_world :: world where
  "traced_world = snd (profiler_function no_match 0 (Some app_frame) ''call'' running_world)"

definition restarted_world :: world where
  "restarted_world =
     snd (profiler_init (File ''/opt/omnitrace/__init__.py'') 0 (profiler_finalize 0 traced_world))"

definition two_threads :: world where
  "two_threads = get_config 1 (get_config 0 initial_world)"

definition started_two_threads :: world where
  "started_two_threads = snd (profiler_init (File ''/opt/omnitrace/__init__.py'') 0 two_threads)"

text \<open>
  A call of \<^verbatim>\<open>foo\<close> that calls \<^verbatim>\<open>bar\<close>, with \<^verbatim>\<open>include_args\<close> on: the frame of \<^verbatim>\<open>bar\<close> whose
  arguments can be formatted, the same frame at a moment when formatting them raises, the
  state after the call event of \<^verbatim>\<open>foo\<close>, the state after the call event of \<^verbatim>\<open>bar\<close>, and a
  sequence of events in which \<^verbatim>\<open>bar\<close> is entered and left, with an event without a frame and
  an event of another kind in between.
\<close>

definition inner_frame :: frame where
  "inner_frame = Frame ''bar'' ''/home/user/app.py'' 7 (Args ''(y=2)'') []"

definition inner_failing :: frame where
  "inner_failing = Frame ''bar'' ''/home/user/app.py'' 9 Other_error []"

definition entered_world :: world where
  "entered_world = snd (profiler_function no_match 0 (Some app_frame) ''call'' args_world)"

definition inner_world :: world where
  "inner_world = snd (profiler_function no_match 0 (Some inner_frame) ''call'' entered_world)"

definition nested_events :: "(frame option \<times> string) list" where
  "nested_events =
     [(Some inner_frame, ''call''), (None, ''call''), (Some app_frame, ''line''),
      (Some inner_frame, ''return'')]"

section \<open>Lemmas\<close>

subsection \<open>The configuration of a thread\<close>

lemma get_config_tls [simp]: "tls (get_config t w) = tls w"
  by (simp add: get_config_def Let_def split: option.splits)

lemma get_config_sink [simp]: "sink (get_config t w) = sink w"
  by (simp add: get_config_def Let_def split: option.splits)

lemma get_config_omnitrace_path [simp]: "omnitrace_path (get_config t w) = omnitrace_path w"
  by (simp add: get_config_def Let_def split: option.splits)

lemma get_config_known: "tl_instance w t \<noteq> None \<Longrightarrow> get_config t w = w"
  by (auto simp add: get_config_def)

lemma get_config_sets [simp]: "tl_instance (get_config t w) t \<noteq> None"
  by (simp add: get_config_def Let_def split: option.splits)

lemma get_config_idem [simp]: "get_config t (get_config t w) = get_config t w"
  by (simp add: get_config_known)

lemma thread_locals_disable_same: "disable r = b \<Longrightarrow> r\<lparr>disable := b\<rparr> = r"
  by (cases r) simp

lemma the_config_put_config [simp]: "the_config (put_config t c w) t = c"
  by (cases "tl_instance w t")
     (simp_all add: the_config_def put_config_def split: tl_instance_t.splits)

lemma put_config_fields [simp]:
  "tls (put_config t c w) = tls w"
  "sink (put_config t c w) = sink w"
  "omnitrace_path (put_config t c w) = omnitrace_path w"
  "count (put_config t c w) = count w"
  by (cases "tl_instance w t"; simp add: put_config_def split: tl_instance_t.splits)+

lemma put_config_tl_instance_None [simp]:
  "tl_instance (put_config t c w) t' = None \<longleftrightarrow> tl_instance w t' = None"
  by (cases "tl_instance w t"; simp add: put_config_def split: tl_instance_t.splits)

lemma the_config_set_disable [simp]: "the_config (set_disable t b w) t' = the_config w t'"
  by (simp add: the_config_def set_disable_def split: option.split tl_instance_t.split)

lemma set_disable_fields [simp]:
  "sink (set_disable t b w) = sink w"
  "omnitrace_path (set_disable t b w) = omnitrace_path w"
  "count (set_disable t b w) = count w"
  "proc_instance (set_disable t b w) = proc_instance w"
  by (simp_all add: set_disable_def)

lemma put_config_set_disable:
  "put_config t c (set_disable t' b w) = set_disable t' b (put_config t c w)"
  by (cases "tl_instance w t"; simp add: put_config_def set_disable_def split: tl_instance_t.splits)

lemma set_disable_twice [simp]: "set_disable t b (set_disable t b' w) = set_disable t b w"
  by (simp add: set_disable_def)

lemma set_disable_same: "disable (tls w t) = b \<Longrightarrow> set_disable t b w = w"
  by (simp add: set_disable_def thread_locals_disable_same)

lemma set_disable_tl_instance [simp]: "tl_instance (set_disable t b w) = tl_instance w"
  by (simp add: set_disable_def)

lemma set_disable_disable [simp]: "disable (tls (set_disable t b w) t) = b"
  by (simp add: set_disable_def)

lemma init_omnitrace_path_fields [simp]:
  "tls (snd (init_omnitrace_path t w)) = tls w"
  "sink (snd (init_omnitrace_path t w)) = sink w"
  "tl_instance (snd (init_omnitrace_path t w)) = tl_instance w"
  "proc_instance (snd (init_omnitrace_path t w)) = proc_instance w"
  "count (snd (init_omnitrace_path t w)) = count w"
  by (cases "omnitrace_path w"; simp add: init_omnitrace_path_def Let_def)+

lemma the_config_init_omnitrace_path [simp]:
  "the_config (snd (init_omnitrace_path t w)) t' = the_config w t'"
  by (simp add: the_config_def split: option.split tl_instance_t.split)

lemma configuration_property_set_fields [simp]:
  "tls (configuration_property_set upd t w) = tls w"
  "sink (configuration_property_set upd t w) = sink w"
  "omnitrace_path (configuration_property_set upd t w) = omnitrace_path w"
  by (simp_all add: configuration_property_set_def Let_def)

lemma the_config_configuration_property_set [simp]:
  "the_config (configuration_property_set upd t w) t = upd (the_config (get_config t w) t)"
  by (simp add: configuration_property_set_def Let_def)

lemma configuration_property_set_known [simp]:
  "tl_instance (configuration_property_set upd t w) t \<noteq> None"
  by (simp add: configuration_property_set_def Let_def)

lemma the_config_initial_world [simp]: "the_config (get_config t initial_world) t = default_config"
  by (simp add: get_config_def the_config_def initial_world_def)

lemma get_config_put_config_get_config [simp]:
  "get_config t (put_config t c (get_config t w)) = put_config t c (get_config t w)"
  by (simp add: get_config_known)

lemma put_config_put_config [simp]:
  "put_config t c (put_config t c' w) = put_config t c w"
  by (cases "tl_instance w t") (simp_all add: put_config_def split: tl_instance_t.splits)

lemma the_config_tls_update [simp]: "the_config (w\<lparr>tls := x\<rparr>) t = the_config w t"
  by (simp add: the_config_def split: option.split tl_instance_t.split)

lemma the_config_sink_update [simp]: "the_config (w\<lparr>sink := x\<rparr>) t = the_config w t"
  by (simp add: the_config_def split: option.split tl_instance_t.split)

lemma the_config_omnitrace_path_update [simp]:
  "the_config (w\<lparr>omnitrace_path := x\<rparr>) t = the_config w t"
  by (simp add: the_config_def split: option.split tl_instance_t.split)

lemma owns_copy_cases:
  obtains (tmp) c where "tl_instance w t = Some (Points_to_tmp c)" "owns_copy w t"
  | (shared) "tl_instance w t = Some Points_to_instance" "\<not> owns_copy w t"
  | (unset) "tl_instance w t = None" "\<not> owns_copy w t"
proof (cases "tl_instance w t")
  case None
  then show ?thesis using unset by (simp add: owns_copy_def)
next
  case (Some p)
  then show ?thesis using tmp shared by (cases p) (simp_all add: owns_copy_def)
qed

lemma the_config_put_config_other:
  assumes "t \<noteq> t'" and "owns_copy w t \<or> owns_copy w t'"
  shows "the_config (put_config t' x w) t = the_config w t"
proof (cases w t rule: owns_copy_cases)
  case (tmp c)
  with assms(1) show ?thesis
    by (cases w t' rule: owns_copy_cases) (simp_all add: put_config_def the_config_def)
next
  case shared
  with assms obtain c' where "tl_instance w t' = Some (Points_to_tmp c')"
    by (cases w t' rule: owns_copy_cases) simp_all
  with shared assms(1) show ?thesis
    by (simp add: put_config_def the_config_def)
next
  case unset
  with assms obtain c' where "tl_instance w t' = Some (Points_to_tmp c')"
    by (cases w t' rule: owns_copy_cases) simp_all
  with unset assms(1) show ?thesis
    by (simp add: put_config_def the_config_def)
qed

lemma put_config_commute:
  assumes "t \<noteq> t'" and "owns_copy w t \<or> owns_copy w t'"
  shows "put_config t c (put_config t' c' w) = put_config t' c' (put_config t c w)"
proof (cases w t rule: owns_copy_cases)
  case (tmp x)
  with assms(1) show ?thesis
    by (cases w t' rule: owns_copy_cases) (simp_all add: put_config_def fun_upd_twist)
next
  case shared
  with assms obtain x' where "tl_instance w t' = Some (Points_to_tmp x')"
    by (cases w t' rule: owns_copy_cases) simp_all
  with shared assms(1) show ?thesis
    by (simp add: put_config_def)
next
  case unset
  with assms obtain x' where "tl_instance w t' = Some (Points_to_tmp x')"
    by (cases w t' rule: owns_copy_cases) simp_all
  with unset assms(1) show ?thesis
    by (simp add: put_config_def)
qed

lemma put_config_tls_update: "put_config t c (w\<lparr>tls := x\<rparr>) = (put_config t c w)\<lparr>tls := x\<rparr>"
  by (cases w t rule: owns_copy_cases) (simp_all add: put_config_def)

lemma put_config_sink_update: "put_config t c (w\<lparr>sink := x\<rparr>) = (put_config t c w)\<lparr>sink := x\<rparr>"
  by (cases w t rule: owns_copy_cases) (simp_all add: put_config_def)

lemma put_config_omnitrace_path_update:
  "put_config t c (w\<lparr>omnitrace_path := x\<rparr>) = (put_config t c w)\<lparr>omnitrace_path := x\<rparr>"
  by (cases w t rule: owns_copy_cases) (simp_all add: put_config_def)

lemma owns_copy_updates [simp]:
  "owns_copy (w\<lparr>tls := x\<rparr>) t = owns_copy w t"
  "owns_copy (w\<lparr>sink := s\<rparr>) t = owns_copy w t"
  "owns_copy (w\<lparr>omnitrace_path := p\<rparr>) t = owns_copy w t"
  by (simp_all add: owns_copy_def)

lemma owns_copy_put_config [simp]: "owns_copy (put_config t' c w) t = owns_copy w t"
  by (cases w t' rule: owns_copy_cases) (simp_all add: put_config_def owns_copy_def)

lemma owns_copy_init_omnitrace_path [simp]:
  "owns_copy (snd (init_omnitrace_path t w)) t' = owns_copy w t'"
  by (simp add: owns_copy_def)

lemma get_config_keeps:
  assumes "tl_instance w t' \<noteq> None"
  shows "tl_instance (get_config t w) t' \<noteq> None"
  using assms by (cases "tl_instance w t") (auto simp add: get_config_def Let_def)

lemma configuration_property_set_known_eq:
  assumes "tl_instance w t \<noteq> None"
  shows "configuration_property_set upd t w = put_config t (upd (the_config w t)) w"
  using assms by (simp add: configuration_property_set_def get_config_known)

lemma copy_config_eq:
  "copy_config c = c\<lparr>ignore_stack_depth := 0, base_stack_depth := - 1, records := Map.empty\<rparr>"
  by (cases c) (simp add: copy_config_def default_config_def)

subsection \<open>The control surface\<close>

lemma set_strset_strings:
  "set_strset (map Py_str L) targ = (Returned, snd (set_strset (map Py_str L) targ))
   \<and> set (snd (set_strset (map Py_str L) targ)) = set targ \<union> set L"
  by (induction L arbitrary: targ) (auto simp add: strset_insert_def)

lemma configuration_strset_set_config:
  "the_config (snd (configuration_strset_set field assign val t w)) t
     = assign (snd (set_strset val (field (the_config (get_config t w) t))))
         (the_config (get_config t w) t)"
  by (simp add: configuration_strset_set_def Let_def split: prod.split)

lemma configuration_strset_set_outcome:
  "fst (configuration_strset_set field assign val t w)
     = fst (set_strset val (field (the_config (get_config t w) t)))"
  by (simp add: configuration_strset_set_def Let_def split: prod.split)

lemma configuration_strset_set_fields [simp]:
  "tls (snd (configuration_strset_set field assign val t w)) = tls w"
  "sink (snd (configuration_strset_set field assign val t w)) = sink w"
  "omnitrace_path (snd (configuration_strset_set field assign val t w)) = omnitrace_path w"
  by (simp_all add: configuration_strset_set_def Let_def split: prod.split)

lemma profiler_init_File:
  "profiler_init (File f) t w =
     (Returned,
      let cfg = (the_config (get_config t w) t)\<lparr>base_module_path := dirname f\<rparr>
      in put_config t
           (if is_running cfg then cfg
            else cfg\<lparr>records := Map.empty, base_stack_depth := - 1, is_running := True\<rparr>)
           (put_config t cfg (get_config t w)))"
proof -
  have same: "put_config t c (put_config t c w') = put_config t c w'" for c w'
    by (cases "tl_instance w' t") (simp_all add: put_config_def split: tl_instance_t.splits)
  show ?thesis
    by (simp add: profiler_init_def Let_def same)
qed

lemma profiler_init_File_cast_error:
  "profiler_init File_cast_error t w =
     (Returned,
      let cfg = the_config (get_config t w) t
      in if is_running cfg then get_config t w
         else put_config t
                (cfg\<lparr>records := Map.empty, base_stack_depth := - 1, is_running := True\<rparr>)
                (get_config t w))"
  by (simp add: profiler_init_def Let_def)

lemma profiler_init_fields [simp]:
  "tls (snd (profiler_init fr t w)) = tls w"
  "sink (snd (profiler_init fr t w)) = sink w"
  "omnitrace_path (snd (profiler_init fr t w)) = omnitrace_path w"
  by (cases fr; simp add: profiler_init_def Let_def)+

lemma profiler_finalize_fields [simp]:
  "tls (profiler_finalize t w) = tls w"
  "sink (profiler_finalize t w) = sink w"
  "omnitrace_path (profiler_finalize t w) = omnitrace_path w"
  by (simp_all add: profiler_finalize_def Let_def)

lemma the_config_profiler_finalize:
  "the_config (profiler_finalize t w) t
     = (let cfg = the_config (get_config t w) t
        in if \<not> is_running cfg then cfg
           else cfg\<lparr>is_running := False, base_stack_depth := - 1, records := Map.empty\<rparr>)"
  by (simp add: profiler_finalize_def Let_def)

lemma profiler_finalize_known [simp]: "tl_instance (profiler_finalize t w) t \<noteq> None"
  by (simp add: profiler_finalize_def Let_def del: not_None_eq)

lemma profiler_init_known [simp]: "tl_instance (snd (profiler_init (File f) t w)) t \<noteq> None"
  by (simp add: profiler_init_File Let_def del: not_None_eq)

lemma the_config_profiler_init_File:
  "the_config (snd (profiler_init (File f) t w)) t
     = (let cfg = the_config (get_config t w) t
        in if is_running cfg then cfg\<lparr>base_module_path := dirname f\<rparr>
           else cfg\<lparr>base_module_path := dirname f, records := Map.empty,
                    base_stack_depth := - 1, is_running := True\<rparr>)"
  by (simp add: profiler_init_File Let_def)

subsection \<open>Calls of the callback from within the callback\<close>

lemma profiler_function_nested:
  assumes "disable (tls w t)" and "tl_instance w t \<noteq> None"
  shows "profiler_function rx t pframe swhat w = (Returned, w)"
  using assms by (cases pframe) (simp_all add: profiler_function.simps get_config_known)

lemma reentry_noop:
  assumes "disable (tls w t)" and "tl_instance w t \<noteq> None"
  shows "fold (\<lambda>ev w'. snd (profiler_function rx t (fst ev) (snd ev) w')) evs w = w"
  using assms by (induction evs) (simp_all add: profiler_function_nested)

lemma get_args_noop:
  assumes "reenter w = w"
  shows "get_args reenter frame w = (args_of frame, w)"
  using assms by (simp add: get_args_def args_of_def split: args_result.splits)

lemma get_label_noop:
  assumes "reenter w = w"
  shows "get_label reenter t frame func fname full w = get_label (\<lambda>w. w) t frame func fname full w"
  using assms by (simp add: get_label_def get_args_noop)

lemma init_omnitrace_path_dispatching:
  "dispatching t (snd (init_omnitrace_path t' w)) = dispatching t w"
  by (simp add: init_omnitrace_path_def dispatching_def Let_def split: option.splits)

lemma profiler_body_noop:
  assumes "\<And>w. dispatching t w \<Longrightarrow> reenter w = w" and "dispatching t w0"
  shows "profiler_body rx reenter t frame swhat w0 = profiler_body rx (\<lambda>w. w) t frame swhat w0"
proof -
  obtain path w where iw: "init_omnitrace_path t w0 = (path, w)"
    by (cases "init_omnitrace_path t w0")
  with assms(2) have dw: "dispatching t w"
    using init_omnitrace_path_dispatching [of t t w0] by simp
  then have r1: "reenter w = w"
    by (rule assms(1))
  have ga: "get_args reenter frame w = (args_of frame, w)"
      "get_args (\<lambda>w. w) frame w = (args_of frame, w)"
    using r1 by (simp_all add: get_args_noop)
  have gl: "get_label reenter t frame func fname full w = get_label (\<lambda>w. w) t frame func fname full w"
    for func fname full
    using r1 by (rule get_label_noop)
  show ?thesis
  proof (cases "what_of swhat")
    case None
    then show ?thesis
      by (simp add: profiler_body_def iw)
  next
    case (Some what)
    show ?thesis
    proof (cases "passes_filters rx (the_config w t) path (co_name frame) (co_filename frame)")
      case (Inl e)
      with Some show ?thesis
        by (simp add: profiler_body_def iw Let_def)
    next
      case (Inr b)
      show ?thesis
      proof (cases b)
        case False
        with Some Inr show ?thesis
          by (simp add: profiler_body_def iw Let_def)
      next
        case True
        with Some Inr show ?thesis
          by (simp add: profiler_body_def iw Let_def ga gl split: sum.split)
      qed
    qed
  qed
qed

lemma profiler_function_Some:
  "profiler_function rx t (Some frame) swhat w =
     (let w0 = get_config t w in
      if disable (tls w0 t) then (Returned, w0)
      else
        let (r, w1) = profiler_body rx (\<lambda>w. w) t frame swhat (set_disable t True w0)
        in (r, set_disable t False w1))"
proof -
  have "profiler_body rx
          (\<lambda>wr. fold (\<lambda>ev w'. snd (profiler_function rx t (fst ev) (snd ev) w')) (reentry frame) wr)
          t frame swhat (set_disable t True (get_config t w))
      = profiler_body rx (\<lambda>w. w) t frame swhat (set_disable t True (get_config t w))"
    by (rule profiler_body_noop) (simp_all add: dispatching_def reentry_noop)
  then show ?thesis
    by (simp add: profiler_function.simps Let_def)
qed

lemma profiler_function_None_idle:
  assumes "\<not> disable (tls w t)"
  shows "profiler_function rx t None swhat w = (Returned, get_config t w)"
  using assms by (simp add: profiler_function.simps set_disable_same)

lemma profiler_function_busy:
  assumes "disable (tls w t)"
  shows "profiler_function rx t pframe swhat w = (Returned, get_config t w)"
  using assms by (cases pframe) (simp_all add: profiler_function.simps)

subsection \<open>The callback as a decision followed by an action\<close>

lemma get_label_label_of:
  "get_label (\<lambda>w. w) t frame func filename fullpath w
     = (label_of (the_config w t) frame func filename fullpath, w)"
  by (simp add: get_label_def label_of_def get_args_noop Let_def split: sum.split)

lemma get_label_without_args:
  assumes "\<not> include_args (the_config w t)"
  shows "get_label reenter t frame func filename fullpath w
     = (label_of (the_config w t) frame func filename fullpath, w)"
  using assms by (simp add: get_label_def label_of_def Let_def)

lemma profiler_body_decide:
  "profiler_body rx (\<lambda>w. w) t frame swhat w0 =
     (let (path, w) = init_omnitrace_path t w0
      in finish t (decide rx (the_config w t) path frame swhat) w)"
proof -
  obtain path w where iw: "init_omnitrace_path t w0 = (path, w)"
    by (cases "init_omnitrace_path t w0")
  show ?thesis
  proof (cases "what_of swhat")
    case None
    then show ?thesis
      by (simp add: profiler_body_def iw decide_def finish_def)
  next
    case (Some what)
    show ?thesis
    proof (cases "passes_filters rx (the_config w t) path (co_name frame) (co_filename frame)")
      case (Inl e)
      with Some show ?thesis
        by (simp add: profiler_body_def iw decide_def finish_def Let_def)
    next
      case (Inr b)
      show ?thesis
      proof (cases b)
        case False
        with Some Inr show ?thesis
          by (simp add: profiler_body_def iw decide_def finish_def Let_def)
      next
        case True
        with Some Inr show ?thesis
          by (simp add: profiler_body_def iw decide_def finish_def Let_def get_args_noop
                get_label_label_of split: sum.split)
      qed
    qed
  qed
qed

lemma init_omnitrace_path_set_disable:
  "init_omnitrace_path t (set_disable t' b w)
     = (fst (init_omnitrace_path t w), set_disable t' b (snd (init_omnitrace_path t w)))"
  by (cases "omnitrace_path w") (simp_all add: init_omnitrace_path_def Let_def, simp add: set_disable_def)

lemma sink_update_set_disable:
  "(set_disable t b w)\<lparr>sink := s\<rparr> = set_disable t b (w\<lparr>sink := s\<rparr>)"
  by (simp add: set_disable_def)

lemma profiler_call_set_disable:
  "profiler_call t fdepth label (set_disable t' b w) = set_disable t' b (profiler_call t fdepth label w)"
  by (simp add: profiler_call_def Let_def put_config_set_disable sink_update_set_disable)

lemma profiler_return_set_disable:
  "profiler_return t fdepth label (set_disable t' b w)
     = set_disable t' b (profiler_return t fdepth label w)"
  by (simp add: profiler_return_def Let_def put_config_set_disable sink_update_set_disable
        split: option.splits)

lemma record_event_alt:
  "record_event t what label w =
     (let w1 = w\<lparr>tls := (tls w)
                 (t := tls w t\<lparr>labels := strset_insert label (labels (tls w t)),
                               depth_tracker := snd (next_depth what (depth_tracker (tls w t)))\<rparr>)\<rparr>;
          fdepth = fst (next_depth what (depth_tracker (tls w t)))
      in if is_call what then profiler_call t fdepth label w1
         else profiler_return t fdepth label w1)"
  by (simp add: record_event_def Let_def split: prod.split)

lemma profiler_call_tls [simp]: "tls (profiler_call t fdepth label w) = tls w"
  by (simp add: profiler_call_def Let_def)

lemma profiler_return_tls [simp]: "tls (profiler_return t fdepth label w) = tls w"
  by (simp add: profiler_return_def Let_def split: option.split)

lemma record_event_tls:
  "tls (record_event t what label w) =
     (tls w)(t := tls w t\<lparr>labels := strset_insert label (labels (tls w t)),
                          depth_tracker := snd (next_depth what (depth_tracker (tls w t)))\<rparr>)"
  by (simp add: record_event_alt Let_def)

lemma record_event_set_disable:
  "record_event t what label (set_disable t b w) = set_disable t b (record_event t what label w)"
proof -
  have eq: "(set_disable t b w)\<lparr>tls := (tls (set_disable t b w))
          (t := tls (set_disable t b w) t
             \<lparr>labels := strset_insert label (labels (tls (set_disable t b w) t)),
                depth_tracker := tracker\<rparr>)\<rparr>
      = set_disable t b (w\<lparr>tls := (tls w)
          (t := tls w t\<lparr>labels := strset_insert label (labels (tls w t)),
                        depth_tracker := tracker\<rparr>)\<rparr>)" for tracker
    by (cases "tls w t") (simp add: set_disable_def)
  have dt: "depth_tracker (tls (set_disable t b w) t) = depth_tracker (tls w t)"
    by (simp add: set_disable_def)
  show ?thesis
    unfolding record_event_alt Let_def dt eq
    by (simp add: profiler_call_set_disable profiler_return_set_disable)
qed

lemma finish_disable:
  "disable (tls (snd (finish t d w)) t') = disable (tls w t')"
  by (cases d) (simp_all add: finish_def record_event_tls)

lemma finish_set_disable:
  "finish t d (set_disable t b w) = (fst (finish t d w), set_disable t b (snd (finish t d w)))"
  by (cases d) (simp_all add: finish_def record_event_set_disable)

lemma profiler_function_idle:
  assumes "\<not> disable (tls w t)"
  shows "profiler_function rx t (Some frame) swhat w =
     (let (path, w1) = init_omnitrace_path t (get_config t w)
      in finish t (decide rx (the_config w1 t) path frame swhat) w1)"
proof -
  obtain path w1 where iw: "init_omnitrace_path t (get_config t w) = (path, w1)"
    by (cases "init_omnitrace_path t (get_config t w)")
  have "tls w1 = tls w"
    using iw by (auto simp add: init_omnitrace_path_def Let_def split: option.splits)
  with assms have idle: "\<not> disable (tls w1 t)"
    by simp
  obtain r w2 where fw: "finish t (decide rx (the_config w1 t) path frame swhat) w1 = (r, w2)"
    by (cases "finish t (decide rx (the_config w1 t) path frame swhat) w1")
  have "set_disable t False (snd (finish t d w1)) = snd (finish t d w1)" for d
    using idle by (simp add: set_disable_same finish_disable)
  then show ?thesis
    using assms
    by (simp add: profiler_function_Some profiler_body_decide init_omnitrace_path_set_disable iw
          finish_set_disable Let_def)
qed

lemma profiler_function_finish:
  assumes "\<not> disable (tls w t)"
  shows "profiler_function rx t (Some frame) swhat w =
     finish t (decide rx (the_config (get_config t w) t)
                 (fst (init_omnitrace_path t (get_config t w))) frame swhat)
       (snd (init_omnitrace_path t (get_config t w)))"
  using assms
  by (cases "init_omnitrace_path t (get_config t w)")
     (use the_config_init_omnitrace_path [of t "get_config t w" t] in
      \<open>simp add: profiler_function_idle\<close>)

lemma profiler_function_rejected:
  assumes "\<not> disable (tls w t)"
    and "decide rx (the_config (get_config t w) t) (fst (init_omnitrace_path t (get_config t w)))
           frame swhat = Rejected"
  shows "profiler_function rx t (Some frame) swhat w
     = (Returned, snd (init_omnitrace_path t (get_config t w)))"
  using assms
  by (cases "init_omnitrace_path t (get_config t w)")
     (use the_config_init_omnitrace_path [of t "get_config t w" t] in
      \<open>simp add: profiler_function_idle finish_def\<close>)

lemma decide_reentry:
  "decide rx cfg path (Frame n f l a evs) swhat = decide rx cfg path (Frame n f l a []) swhat"
  by (simp add: decide_def args_of_def label_of_def
        cong del: option.case_cong_weak sum.case_cong_weak bool.case_cong_weak if_weak_cong)

lemma profiler_body_reentry:
  "profiler_body rx (\<lambda>w. w) t (Frame n f l a evs) swhat w
     = profiler_body rx (\<lambda>w. w) t (Frame n f l a []) swhat w"
  by (simp add: profiler_body_decide decide_reentry [of _ _ _ n f l a evs])

lemma decide_Accepted:
  assumes "decide rx cfg path frame swhat = Accepted what label"
  shows "what_of swhat = Some what"
    and "label_of cfg frame (co_name frame) (get_basename (co_filename frame)) (co_filename frame)
           = Inr label"
  using assms
  by (auto simp add: decide_def split: option.splits if_splits sum.splits bool.splits)

lemma what_of_return:
  assumes "swhat = ''return'' \<or> swhat = ''c_return''" and "what_of swhat = Some what"
  shows "\<not> is_call what"
  using assms by (auto simp add: what_of_def is_call_def)

subsection \<open>The records\<close>

lemma the_config_profiler_call:
  "the_config (profiler_call t fdepth label w) t
     = (let cfg = the_config w t;
            by_label = (case records cfg fdepth of None \<Rightarrow> Map.empty | Some m \<Rightarrow> m);
            entry = (case by_label label of None \<Rightarrow> [] | Some v \<Rightarrow> v)
        in cfg\<lparr>records := (records cfg)(fdepth \<mapsto> by_label(label \<mapsto> entry @ [Profiler label]))\<rparr>)"
  by (simp add: profiler_call_def Let_def)

lemma sink_profiler_call:
  "sink (profiler_call t fdepth label w) = sink w @ [Push_region label]"
  by (simp add: profiler_call_def Let_def first_action_def)

lemma the_config_record_event_call:
  "the_config (record_event t PyTrace_CALL label w) t
     = (let cfg = the_config w t;
            fdepth = depth_tracker (tls w t);
            by_label = (case records cfg fdepth of None \<Rightarrow> Map.empty | Some m \<Rightarrow> m);
            entry = (case by_label label of None \<Rightarrow> [] | Some v \<Rightarrow> v)
        in cfg\<lparr>records := (records cfg)(fdepth \<mapsto> by_label(label \<mapsto> entry @ [Profiler label]))\<rparr>)"
  by (simp add: record_event_alt the_config_profiler_call next_depth_def is_call_def Let_def)

lemma profiler_return_miss:
  assumes "no_open_region (records (the_config w t)) fdepth label"
  shows "profiler_return t fdepth label w = w"
  using assms
  by (simp add: profiler_return_def no_open_region_def Let_def split: option.splits)

lemma record_event_return_miss:
  assumes "\<not> is_call what"
    and "no_open_region (records (the_config w t)) (depth_tracker (tls w t) - 1) label"
  shows "record_event t what label w =
     w\<lparr>tls := (tls w)(t := tls w t\<lparr>labels := strset_insert label (labels (tls w t)),
                                   depth_tracker := depth_tracker (tls w t) - 1\<rparr>)\<rparr>"
  using assms by (simp add: record_event_alt next_depth_def Let_def profiler_return_miss)

subsection \<open>The callback and the configuration of another thread\<close>

lemma profiler_call_put_config_other:
  assumes "t \<noteq> t'" and "owns_copy w t \<or> owns_copy w t'"
  shows "profiler_call t fdepth label (put_config t' c' w)
     = put_config t' c' (profiler_call t fdepth label w)"
  using assms
  by (simp add: profiler_call_def Let_def the_config_put_config_other
        put_config_commute [of t t'] put_config_sink_update)

lemma profiler_return_put_config_other:
  assumes "t \<noteq> t'" and "owns_copy w t \<or> owns_copy w t'"
  shows "profiler_return t fdepth label (put_config t' c' w)
     = put_config t' c' (profiler_return t fdepth label w)"
  using assms
  by (simp add: profiler_return_def Let_def the_config_put_config_other
        put_config_sink_update [symmetric] put_config_commute [of t t']
        split: option.split)

lemma record_event_put_config_other:
  assumes "t \<noteq> t'" and "owns_copy w t \<or> owns_copy w t'"
  shows "record_event t what label (put_config t' c' w)
     = put_config t' c' (record_event t what label w)"
  using assms
  by (simp add: record_event_alt Let_def put_config_tls_update [symmetric]
        profiler_call_put_config_other profiler_return_put_config_other)

lemma finish_put_config_other:
  assumes "t \<noteq> t'" and "owns_copy w t \<or> owns_copy w t'"
  shows "finish t d (put_config t' c' w) = (fst (finish t d w), put_config t' c' (snd (finish t d w)))"
  using assms by (cases d) (simp_all add: finish_def record_event_put_config_other)

lemma init_omnitrace_path_put_config_other:
  assumes "t \<noteq> t'" and "owns_copy w t \<or> owns_copy w t'"
  shows "init_omnitrace_path t (put_config t' c' w)
     = (fst (init_omnitrace_path t w), put_config t' c' (snd (init_omnitrace_path t w)))"
  using assms
  by (cases "omnitrace_path w")
     (simp_all add: init_omnitrace_path_def Let_def the_config_put_config_other
        put_config_omnitrace_path_update)

lemma profiler_function_put_config_other:
  assumes "t \<noteq> t'" and "owns_copy w t \<or> owns_copy w t'" and "tl_instance w t \<noteq> None"
  shows "profiler_function rx t pframe swhat (put_config t' c' w)
     = (fst (profiler_function rx t pframe swhat w),
        put_config t' c' (snd (profiler_function rx t pframe swhat w)))"
proof (cases "disable (tls w t)")
  case True
  with assms(3) show ?thesis
    by (simp add: profiler_function_busy get_config_known)
next
  case idle: False
  show ?thesis
  proof (cases pframe)
    case None
    with idle assms(3) show ?thesis
      by (simp add: profiler_function_None_idle get_config_known)
  next
    case (Some frame)
    with idle assms show ?thesis
      by (simp add: profiler_function_finish get_config_known
            init_omnitrace_path_put_config_other the_config_put_config_other
            finish_put_config_other)
  qed
qed

lemma the_config_record_event_other:
  assumes "t \<noteq> t'" and "owns_copy w t \<or> owns_copy w t'"
  shows "the_config (record_event t what label w) t' = the_config w t'"
proof -
  have "the_config (put_config t c (w\<lparr>tls := x\<rparr>)) t' = the_config w t'" for c x
    using assms the_config_put_config_other [of t' t "w\<lparr>tls := x\<rparr>" c] by auto
  then show ?thesis
    by (simp add: record_event_alt profiler_call_def profiler_return_def Let_def
          put_config_sink_update split: option.split)
qed

lemma the_config_profiler_function_other:
  assumes "t \<noteq> t'" and "owns_copy w t \<or> owns_copy w t'" and "tl_instance w t \<noteq> None"
  shows "the_config (snd (profiler_function rx t pframe swhat w)) t' = the_config w t'"
proof (cases "disable (tls w t)")
  case True
  with assms(3) show ?thesis
    by (simp add: profiler_function_busy get_config_known)
next
  case idle: False
  show ?thesis
  proof (cases pframe)
    case None
    with idle assms(3) show ?thesis
      by (simp add: profiler_function_None_idle get_config_known)
  next
    case (Some frame)
    have "the_config (snd (finish t d (snd (init_omnitrace_path t w)))) t' = the_config w t'" for d
      using assms(1,2) by (cases d) (simp_all add: finish_def the_config_record_event_other)
    with Some idle assms(3) show ?thesis
      by (simp add: profiler_function_finish get_config_known)
  qed
qed

lemma record_event_tl_instance_None [simp]:
  "tl_instance (record_event t what label w) t' = None \<longleftrightarrow> tl_instance w t' = None"
  by (simp add: record_event_alt profiler_call_def profiler_return_def Let_def
        split: option.split)

lemma finish_tl_instance_None [simp]:
  "tl_instance (snd (finish t d w)) t' = None \<longleftrightarrow> tl_instance w t' = None"
  by (cases d) (simp_all add: finish_def)

lemma profiler_function_known:
  assumes "tl_instance w t' \<noteq> None"
  shows "tl_instance (snd (profiler_function rx t pframe swhat w)) t' \<noteq> None"
proof (cases "disable (tls w t)")
  case True
  with assms show ?thesis
    by (simp add: profiler_function_busy get_config_keeps del: not_None_eq)
next
  case idle: False
  show ?thesis
  proof (cases pframe)
    case None
    with idle assms show ?thesis
      by (simp add: profiler_function_None_idle get_config_keeps del: not_None_eq)
  next
    case (Some frame)
    with idle assms show ?thesis
      by (simp add: profiler_function_finish get_config_keeps del: not_None_eq)
  qed
qed

lemma tls_profiler_function_other:
  assumes "t \<noteq> t'"
  shows "tls (snd (profiler_function rx t pframe swhat w)) t' = tls w t'"
proof (cases "disable (tls w t)")
  case True
  then show ?thesis by (simp add: profiler_function_busy)
next
  case idle: False
  show ?thesis
  proof (cases pframe)
    case None
    with idle show ?thesis by (simp add: profiler_function_None_idle)
  next
    case (Some frame)
    have "tls (snd (finish t d w')) t' = tls w' t'" for d w'
      using assms by (cases d) (simp_all add: finish_def record_event_tls)
    with idle Some show ?thesis
      by (simp add: profiler_function_finish)
  qed
qed

subsection \<open>The installation path\<close>

lemma passes_filters_base [simp]:
  "passes_filters rx (cfg\<lparr>base_module_path := x\<rparr>) path func full
     = passes_filters rx cfg path func full"
  by (simp add: passes_filters_def
        cong del: sum.case_cong_weak bool.case_cong_weak if_weak_cong)

lemma label_of_base [simp]:
  "label_of (cfg\<lparr>base_module_path := x\<rparr>) frame func fname full = label_of cfg frame func fname full"
  by (simp add: label_of_def cong del: sum.case_cong_weak if_weak_cong)

lemma decide_base [simp]:
  "decide rx (cfg\<lparr>base_module_path := x\<rparr>) path frame swhat = decide rx cfg path frame swhat"
  by (simp add: decide_def
        cong del: sum.case_cong_weak bool.case_cong_weak option.case_cong_weak if_weak_cong)

lemma init_omnitrace_path_captured:
  assumes "omnitrace_path w = Some p"
  shows "init_omnitrace_path t w = (p, w)"
  using assms by (simp add: init_omnitrace_path_def)

lemma config_base_records:
  "c\<lparr>base_module_path := x, records := r\<rparr> = c\<lparr>records := r, base_module_path := x\<rparr>"
  by (cases c) simp

lemma profiler_call_base:
  "profiler_call t fdepth label (put_config t ((the_config w t)\<lparr>base_module_path := x\<rparr>) w)
     = put_config t ((the_config (profiler_call t fdepth label w) t)\<lparr>base_module_path := x\<rparr>)
         (profiler_call t fdepth label w)"
  by (simp add: profiler_call_def Let_def put_config_sink_update config_base_records)

lemma profiler_return_base:
  "profiler_return t fdepth label (put_config t ((the_config w t)\<lparr>base_module_path := x\<rparr>) w)
     = put_config t ((the_config (profiler_return t fdepth label w) t)\<lparr>base_module_path := x\<rparr>)
         (profiler_return t fdepth label w)"
  by (simp add: profiler_return_def Let_def put_config_sink_update config_base_records
        split: option.split)

lemma record_event_base:
  "record_event t what label (put_config t ((the_config w t)\<lparr>base_module_path := x\<rparr>) w)
     = put_config t ((the_config (record_event t what label w) t)\<lparr>base_module_path := x\<rparr>)
         (record_event t what label w)"
proof -
  let ?w1 = "w\<lparr>tls := (tls w)
                 (t := tls w t\<lparr>labels := strset_insert label (labels (tls w t)),
                               depth_tracker := snd (next_depth what (depth_tracker (tls w t)))\<rparr>)\<rparr>"
  have pc: "profiler_call t fdepth label
              (put_config t ((the_config w t)\<lparr>base_module_path := x\<rparr>) ?w1)
      = put_config t ((the_config (profiler_call t fdepth label ?w1) t)\<lparr>base_module_path := x\<rparr>)
          (profiler_call t fdepth label ?w1)" for fdepth
    using profiler_call_base [where t = t and fdepth = fdepth and label = label and w = ?w1 and x = x]
    by simp
  have pr: "profiler_return t fdepth label
              (put_config t ((the_config w t)\<lparr>base_module_path := x\<rparr>) ?w1)
      = put_config t ((the_config (profiler_return t fdepth label ?w1) t)\<lparr>base_module_path := x\<rparr>)
          (profiler_return t fdepth label ?w1)" for fdepth
    using profiler_return_base [where t = t and fdepth = fdepth and label = label and w = ?w1 and x = x]
    by simp
  show ?thesis
    by (simp add: record_event_alt Let_def put_config_tls_update [symmetric] pc pr)
qed

lemma finish_base:
  "finish t d (put_config t ((the_config w t)\<lparr>base_module_path := x\<rparr>) w)
     = (fst (finish t d w),
        put_config t ((the_config (snd (finish t d w)) t)\<lparr>base_module_path := x\<rparr>)
          (snd (finish t d w)))"
  by (cases d) (simp_all add: finish_def record_event_base)

lemma profiler_function_base_same:
  assumes "omnitrace_path w = Some p" and "tl_instance w t \<noteq> None"
  shows "profiler_function rx t pframe swhat
           (put_config t ((the_config w t)\<lparr>base_module_path := x\<rparr>) w)
     = (fst (profiler_function rx t pframe swhat w),
        put_config t
          ((the_config (snd (profiler_function rx t pframe swhat w)) t)\<lparr>base_module_path := x\<rparr>)
          (snd (profiler_function rx t pframe swhat w)))"
proof (cases "disable (tls w t)")
  case True
  with assms(2) show ?thesis
    by (simp add: profiler_function_busy get_config_known)
next
  case idle: False
  show ?thesis
  proof (cases pframe)
    case None
    with idle assms(2) show ?thesis
      by (simp add: profiler_function_None_idle get_config_known)
  next
    case (Some frame)
    with idle assms show ?thesis
      by (simp add: profiler_function_finish get_config_known init_omnitrace_path_captured
            finish_base)
  qed
qed

lemma shared_config:
  assumes "\<not> owns_copy w t" and "\<not> owns_copy w t'"
  shows "the_config w t' = the_config w t" and "put_config t' c w = put_config t c w"
  using assms
  by (cases w t rule: owns_copy_cases; cases w t' rule: owns_copy_cases;
      simp add: the_config_def put_config_def)+

lemma owns_copy_record_event [simp]:
  "owns_copy (record_event t what label w) t' = owns_copy w t'"
  by (simp add: record_event_alt profiler_call_def profiler_return_def Let_def split: option.split)

lemma owns_copy_finish [simp]: "owns_copy (snd (finish t d w)) t' = owns_copy w t'"
  by (cases d) (simp_all add: finish_def)

lemma owns_copy_set_disable [simp]: "owns_copy (set_disable t b w) t' = owns_copy w t'"
  by (simp add: owns_copy_def)

lemma owns_copy_profiler_function:
  assumes "tl_instance w t \<noteq> None"
  shows "owns_copy (snd (profiler_function rx t pframe swhat w)) t' = owns_copy w t'"
proof (cases "disable (tls w t)")
  case True
  with assms show ?thesis
    by (simp add: profiler_function_busy get_config_known)
next
  case idle: False
  show ?thesis
  proof (cases pframe)
    case None
    with idle assms show ?thesis
      by (simp add: profiler_function_None_idle get_config_known)
  next
    case (Some frame)
    with idle assms show ?thesis
      by (simp add: profiler_function_finish get_config_known)
  qed
qed

lemma profiler_function_base:
  assumes "omnitrace_path w = Some p" and "tl_instance w t \<noteq> None" and "tl_instance w t' \<noteq> None"
  shows "profiler_function rx t pframe swhat
           (configuration_property_set (\<lambda>c. c\<lparr>base_module_path := x\<rparr>) t' w)
     = (fst (profiler_function rx t pframe swhat w),
        configuration_property_set (\<lambda>c. c\<lparr>base_module_path := x\<rparr>) t'
          (snd (profiler_function rx t pframe swhat w)))"
proof -
  let ?w' = "snd (profiler_function rx t pframe swhat w)"
  have k': "tl_instance ?w' t' \<noteq> None"
    using assms(3) by (rule profiler_function_known)
  have goal: "profiler_function rx t pframe swhat
           (put_config t' ((the_config w t')\<lparr>base_module_path := x\<rparr>) w)
     = (fst (profiler_function rx t pframe swhat w),
        put_config t' ((the_config ?w' t')\<lparr>base_module_path := x\<rparr>) ?w')"
  proof (cases "t = t'")
    case True
    with assms(1,2) show ?thesis
      by (simp add: profiler_function_base_same)
  next
    case diff: False
    show ?thesis
    proof (cases "owns_copy w t \<or> owns_copy w t'")
      case True
      with diff assms(2) show ?thesis
        by (simp add: profiler_function_put_config_other the_config_profiler_function_other)
    next
      case False
      then have a: "\<not> owns_copy w t" "\<not> owns_copy w t'"
        by simp_all
      then have b: "\<not> owns_copy ?w' t" "\<not> owns_copy ?w' t'"
        using assms(2) by (simp_all add: owns_copy_profiler_function)
      show ?thesis
        using assms(1,2)
        by (simp add: shared_config [OF a] shared_config [OF b] profiler_function_base_same)
    qed
  qed
  then show ?thesis
    by (simp add: configuration_property_set_known_eq [OF assms(3)]
          configuration_property_set_known_eq [OF k'])
qed

lemma find_matching_error:
  assumes "find_matching rx expr name = Inl e"
  shows "e = Regex_error"
  using assms
  by (induction expr) (auto split: option.splits bool.splits)

lemma passes_filters_error:
  assumes "passes_filters rx cfg path func full = Inl e"
  shows "e = Regex_error"
  using assms
  by (auto simp add: passes_filters_def dest: find_matching_error
        split: sum.splits bool.splits if_splits)

lemma passes_filters_empty_path:
  assumes "\<not> include_internal cfg"
  shows "passes_filters rx cfg [] func full \<noteq> Inr True"
  using assms
  by (auto simp add: passes_filters_def split: sum.splits bool.splits if_splits)

lemma decide_empty_path:
  assumes "\<not> include_internal cfg"
  shows "decide rx cfg [] frame swhat = Rejected \<or> decide rx cfg [] frame swhat = Throws Regex_error"
proof (cases "passes_filters rx cfg [] (co_name frame) (co_filename frame)")
  case (Inl e)
  then have "e = Regex_error"
    by (rule passes_filters_error)
  with Inl show ?thesis
    by (simp add: decide_def split: option.split)
next
  case (Inr b)
  with passes_filters_empty_path [OF assms, of rx "co_name frame" "co_filename frame"]
  have "b = False"
    by simp
  with Inr show ?thesis
    by (simp add: decide_def split: option.split)
qed

lemma fst_init_omnitrace_path:
  "fst (init_omnitrace_path t w)
     = (case omnitrace_path w of Some p \<Rightarrow> p | None \<Rightarrow> base_module_path (the_config w t))"
  by (simp add: init_omnitrace_path_def Let_def split: option.split)

lemma omnitrace_path_init_omnitrace_path:
  "omnitrace_path (snd (init_omnitrace_path t w)) = Some (fst (init_omnitrace_path t w))"
  by (simp add: init_omnitrace_path_def Let_def split: option.split)

lemma omnitrace_path_record_event [simp]:
  "omnitrace_path (record_event t what label w) = omnitrace_path w"
  by (simp add: record_event_alt profiler_call_def profiler_return_def Let_def split: option.split)

lemma omnitrace_path_finish [simp]: "omnitrace_path (snd (finish t d w)) = omnitrace_path w"
  by (cases d) (simp_all add: finish_def)

lemma omnitrace_path_profiler_function_Some:
  assumes "\<not> disable (tls w t)"
  shows "omnitrace_path (snd (profiler_function rx t (Some frame) swhat w))
     = Some (case omnitrace_path w of
               Some p \<Rightarrow> p
             | None \<Rightarrow> base_module_path (the_config (get_config t w) t))"
  using assms
  by (simp add: profiler_function_finish omnitrace_path_init_omnitrace_path fst_init_omnitrace_path)

subsection \<open>Depth\<close>

lemma run_tracker_balanced:
  assumes "balanced n evs"
  shows "run_tracker evs tracker = tracker - of_nat n"
  using assms
proof (induction evs arbitrary: n tracker)
  case Nil
  then show ?case by simp
next
  case (Cons what evs)
  show ?case
  proof (cases "is_call what")
    case True
    with Cons.prems have "balanced (Suc n) evs"
      by simp
    from Cons.IH [OF this] True show ?thesis
      by (simp add: next_depth_def)
  next
    case False
    with Cons.prems have pos: "0 < n" and rest: "balanced (n - 1) evs"
      by simp_all
    from pos have "(of_nat (n - 1) :: 32 word) = of_nat n - 1"
      by (cases n) simp_all
    with Cons.IH [OF rest] False show ?thesis
      by (simp add: next_depth_def)
  qed
qed

lemma profiler_function_reached:
  assumes "reached rx t pframe swhat w = Some (what, label)"
  shows "profiler_function rx t pframe swhat w
     = (Returned, record_event t what label (snd (init_omnitrace_path t (get_config t w))))"
proof -
  from assms obtain frame where pf: "pframe = Some frame"
    by (cases pframe) (simp_all add: reached_def)
  from assms pf have idle: "\<not> disable (tls w t)"
    by (simp add: reached_def split: if_splits)
  from assms pf idle have
    "decide rx (the_config (get_config t w) t) (fst (init_omnitrace_path t (get_config t w)))
       frame swhat = Accepted what label"
    by (simp add: reached_def split: decision.splits)
  with idle pf show ?thesis
    by (simp add: profiler_function_finish finish_def)
qed

lemma profiler_function_not_reached:
  assumes "reached rx t pframe swhat w = None"
  shows "tls (snd (profiler_function rx t pframe swhat w)) = tls w"
    and "sink (snd (profiler_function rx t pframe swhat w)) = sink w"
proof -
  have "tls (snd (profiler_function rx t pframe swhat w)) = tls w
      \<and> sink (snd (profiler_function rx t pframe swhat w)) = sink w"
  proof (cases "disable (tls w t)")
    case True
    then show ?thesis
      by (simp add: profiler_function_busy)
  next
    case idle: False
    show ?thesis
    proof (cases pframe)
      case None
      with idle show ?thesis
        by (simp add: profiler_function_None_idle)
    next
      case (Some frame)
      with assms idle show ?thesis
        by (simp add: reached_def profiler_function_finish finish_def split: decision.splits)
    qed
  qed
  then show "tls (snd (profiler_function rx t pframe swhat w)) = tls w"
    and "sink (snd (profiler_function rx t pframe swhat w)) = sink w"
    by simp_all
qed

lemma depth_tracker_profiler_function:
  "depth_tracker (tls (snd (profiler_function rx t pframe swhat w)) t)
     = run_tracker (case reached rx t pframe swhat w of None \<Rightarrow> [] | Some (what, label) \<Rightarrow> [what])
         (depth_tracker (tls w t))"
proof (cases "reached rx t pframe swhat w")
  case None
  then show ?thesis
    by (simp add: profiler_function_not_reached)
next
  case (Some p)
  then show ?thesis
    by (cases p) (simp add: profiler_function_reached record_event_tls)
qed

lemma run_tracker_append:
  "run_tracker (xs @ ys) tracker = run_tracker ys (run_tracker xs tracker)"
  by (induction xs arbitrary: tracker) simp_all

lemma depth_tracker_run_events:
  "depth_tracker (tls (run_events rx t evs w) t)
     = run_tracker (counted rx t evs w) (depth_tracker (tls w t))"
proof (induction evs arbitrary: w)
  case Nil
  then show ?case by simp
next
  case (Cons ev evs)
  show ?case
    by (simp only: run_events.simps counted.simps Cons.IH run_tracker_append
          depth_tracker_profiler_function)
qed

lemma decide_records:
  "decide rx (cfg\<lparr>records := r\<rparr>) path frame swhat = decide rx cfg path frame swhat"
  by (simp add: decide_def passes_filters_def label_of_def
        cong del: sum.case_cong_weak bool.case_cong_weak option.case_cong_weak if_weak_cong)

lemma the_config_profiler_call_records:
  "(the_config (profiler_call t fdepth label w) t)\<lparr>records := r\<rparr> = (the_config w t)\<lparr>records := r\<rparr>"
  by (simp add: the_config_profiler_call Let_def)

lemma the_config_profiler_return_records:
  "(the_config (profiler_return t fdepth label w) t)\<lparr>records := r\<rparr> = (the_config w t)\<lparr>records := r\<rparr>"
  by (simp add: profiler_return_def Let_def split: option.split)

lemma the_config_record_event_records:
  "(the_config (record_event t what label w) t)\<lparr>records := r\<rparr> = (the_config w t)\<lparr>records := r\<rparr>"
  by (simp add: record_event_alt Let_def the_config_profiler_call_records
        the_config_profiler_return_records)

lemma record_event_known:
  assumes "tl_instance w t \<noteq> None"
  shows "tl_instance (record_event t what label w) t \<noteq> None"
  using assms
  by (auto simp add: record_event_alt profiler_call_def profiler_return_def put_config_def Let_def
        split: option.splits tl_instance_t.splits simp del: not_None_eq)

lemma disable_record_event:
  "disable (tls (record_event t what label w) t') = disable (tls w t')"
  by (simp add: record_event_tls)

lemma profiler_function_settled:
  assumes "tl_instance w t \<noteq> None" and "omnitrace_path w = Some p" and "\<not> disable (tls w t)"
  shows "profiler_function rx t (Some frame) swhat w
     = finish t (decide rx (the_config w t) p frame swhat) w"
  using assms
  by (simp add: profiler_function_finish get_config_known init_omnitrace_path_captured)

lemma reached_settled:
  assumes "tl_instance w t \<noteq> None" and "omnitrace_path w = Some p" and "\<not> disable (tls w t)"
  shows "reached rx t (Some frame) swhat w
     = (case decide rx (the_config w t) p frame swhat of
          Accepted what label \<Rightarrow> Some (what, label)
        | _ \<Rightarrow> None)"
  using assms
  by (simp add: reached_def get_config_known init_omnitrace_path_captured)

lemma profiler_function_keeps_settled:
  assumes "tl_instance w t \<noteq> None" and "omnitrace_path w = Some p" and "\<not> disable (tls w t)"
  shows "tl_instance (snd (profiler_function rx t pframe swhat w)) t \<noteq> None"
    and "omnitrace_path (snd (profiler_function rx t pframe swhat w)) = Some p"
    and "\<not> disable (tls (snd (profiler_function rx t pframe swhat w)) t)"
    and "(the_config (snd (profiler_function rx t pframe swhat w)) t)\<lparr>records := r\<rparr>
           = (the_config w t)\<lparr>records := r\<rparr>"
proof -
  show "tl_instance (snd (profiler_function rx t pframe swhat w)) t \<noteq> None"
    using assms(1) by (rule profiler_function_known)
  show "omnitrace_path (snd (profiler_function rx t pframe swhat w)) = Some p"
    using assms
    by (cases pframe)
       (simp_all add: profiler_function_None_idle profiler_function_settled get_config_known)
  show "\<not> disable (tls (snd (profiler_function rx t pframe swhat w)) t)"
    using assms
    by (cases pframe)
       (simp_all add: profiler_function_None_idle profiler_function_settled get_config_known
          finish_disable)
  show "(the_config (snd (profiler_function rx t pframe swhat w)) t)\<lparr>records := r\<rparr>
           = (the_config w t)\<lparr>records := r\<rparr>"
  proof (cases pframe)
    case None
    with assms show ?thesis
      by (simp add: profiler_function_None_idle get_config_known)
  next
    case (Some frame)
    with assms show ?thesis
      by (cases "decide rx (the_config w t) p frame swhat")
         (simp_all add: profiler_function_settled finish_def the_config_record_event_records)
  qed
qed

lemma run_events_settled:
  assumes "tl_instance w t \<noteq> None" and "omnitrace_path w = Some p" and "\<not> disable (tls w t)"
  shows "tl_instance (run_events rx t evs w) t \<noteq> None
       \<and> omnitrace_path (run_events rx t evs w) = Some p
       \<and> \<not> disable (tls (run_events rx t evs w) t)
       \<and> (the_config (run_events rx t evs w) t)\<lparr>records := r\<rparr> = (the_config w t)\<lparr>records := r\<rparr>"
  using assms
proof (induction evs arbitrary: w)
  case Nil
  then show ?case by simp
next
  case (Cons ev evs)
  let ?w = "snd (profiler_function rx t (fst ev) (snd ev) w)"
  note step = profiler_function_keeps_settled [OF Cons.prems, where rx = rx and pframe = "fst ev"
      and swhat = "snd ev"]
  from Cons.IH [OF step(1) step(2) step(3)] step(4) [where r = r] show ?case
    by simp
qed

lemma decide_modulo_records:
  assumes "cfg\<lparr>records := Map.empty\<rparr> = cfg'\<lparr>records := Map.empty\<rparr>"
  shows "decide rx cfg path frame swhat = decide rx cfg' path frame swhat"
proof -
  have "decide rx cfg path frame swhat = decide rx (cfg\<lparr>records := Map.empty\<rparr>) path frame swhat"
    by (simp add: decide_records)
  also have "\<dots> = decide rx (cfg'\<lparr>records := Map.empty\<rparr>) path frame swhat"
    by (simp only: assms)
  also have "\<dots> = decide rx cfg' path frame swhat"
    by (simp add: decide_records)
  finally show ?thesis .
qed

lemma counted_settled:
  assumes "tl_instance w t \<noteq> None" and "omnitrace_path w = Some p" and "\<not> disable (tls w t)"
    and "(the_config w t)\<lparr>records := Map.empty\<rparr> = cfg\<lparr>records := Map.empty\<rparr>"
  shows "counted rx t evs w
     = concat (map (\<lambda>ev. case fst ev of
                            None \<Rightarrow> []
                          | Some frame \<Rightarrow>
                              (case decide rx cfg p frame (snd ev) of
                                 Accepted what label \<Rightarrow> [what]
                               | _ \<Rightarrow> [])) evs)"
  using assms
proof (induction evs arbitrary: w)
  case Nil
  then show ?case by simp
next
  case (Cons ev evs)
  let ?w = "snd (profiler_function rx t (fst ev) (snd ev) w)"
  note step = profiler_function_keeps_settled [OF Cons.prems(1-3), where rx = rx
      and pframe = "fst ev" and swhat = "snd ev"]
  have cfg: "(the_config ?w t)\<lparr>records := Map.empty\<rparr> = cfg\<lparr>records := Map.empty\<rparr>"
    using step(4) [where r = Map.empty] Cons.prems(4) by simp
  have dec: "decide rx (the_config w t) p frame swhat = decide rx cfg p frame swhat" for frame swhat
    using Cons.prems(4) by (rule decide_modulo_records)
  have hd: "(case reached rx t (fst ev) (snd ev) w of None \<Rightarrow> [] | Some (what, label) \<Rightarrow> [what])
      = (case fst ev of
           None \<Rightarrow> []
         | Some frame \<Rightarrow>
             (case decide rx cfg p frame (snd ev) of Accepted what label \<Rightarrow> [what] | _ \<Rightarrow> []))"
  proof (cases "fst ev")
    case None
    then show ?thesis
      by (simp add: reached_def)
  next
    case (Some frame)
    then show ?thesis
      by (simp add: reached_settled [OF Cons.prems(1-3)] dec split: decision.split)
  qed
  show ?case
    by (simp only: counted.simps list.map concat.simps hd
          Cons.IH [OF step(1) step(2) step(3) cfg])
qed

lemma reached_idle:
  assumes "reached rx t pframe swhat w = Some x"
  shows "\<not> disable (tls w t)"
  using assms by (cases pframe) (simp_all add: reached_def split: if_splits)

lemma profiler_function_reached_settled:
  assumes "reached rx t pframe swhat w = Some (what, label)"
  shows "tl_instance (snd (profiler_function rx t pframe swhat w)) t \<noteq> None"
    and "omnitrace_path (snd (profiler_function rx t pframe swhat w))
           = Some (fst (init_omnitrace_path t (get_config t w)))"
    and "\<not> disable (tls (snd (profiler_function rx t pframe swhat w)) t)"
proof -
  note idle = reached_idle [OF assms]
  show "tl_instance (snd (profiler_function rx t pframe swhat w)) t \<noteq> None"
    by (simp add: profiler_function_reached [OF assms] record_event_known del: not_None_eq)
  show "omnitrace_path (snd (profiler_function rx t pframe swhat w))
           = Some (fst (init_omnitrace_path t (get_config t w)))"
    by (simp add: profiler_function_reached [OF assms] omnitrace_path_init_omnitrace_path)
  show "\<not> disable (tls (snd (profiler_function rx t pframe swhat w)) t)"
    using idle by (simp add: profiler_function_reached [OF assms] disable_record_event)
qed

lemma profiler_function_reached_depth:
  assumes "reached rx t pframe swhat w = Some (what, label)"
  shows "profiler_function rx t pframe swhat w =
       (Returned,
        let w0 = snd (init_omnitrace_path t (get_config t w));
            d = depth_tracker (tls w t);
            at = (\<lambda>x. w0\<lparr>tls := (tls w0)
                         (t := tls w0 t\<lparr>labels := strset_insert label (labels (tls w0 t)),
                                        depth_tracker := x\<rparr>)\<rparr>)
        in if is_call what then profiler_call t d label (at (d + 1))
           else profiler_return t (d - 1) label (at (d - 1)))"
  by (simp add: profiler_function_reached [OF assms] record_event_alt next_depth_def Let_def)

subsection \<open>Evaluation of the examples\<close>

lemma show_int_10: "show_int 10 = ''10''"
  by (simp add: show_int_def show_nat.simps digit_char_def)

lemma with_flags_config:
  "the_config (with_flags fname line) 0 = default_config\<lparr>include_filename := fname, include_line := line\<rparr>"
  by (simp add: with_flags_def configuration_property_set_def initial_world_def get_config_def
        the_config_def put_config_def Let_def)

lemma what_of_None_iff:
  "what_of swhat = None \<longleftrightarrow> swhat \<notin> {''call'', ''c_call'', ''return'', ''c_return''}"
  by (simp add: what_of_def)

lemma args_world_config:
  "the_config args_world 0 = default_config\<lparr>include_internal := True, include_args := True\<rparr>"
  by (simp add: args_world_def set_include_internal_def get_config_known)

lemma args_world_known: "tl_instance args_world 0 \<noteq> None"
  by (simp add: args_world_def)

lemma args_world_decide:
  "decide no_match (the_config args_world 0) path failing_frame ''call'' = Throws Error_already_set"
  by (simp add: args_world_config decide_def what_of_def passes_filters_def default_config_def
        no_match_def failing_frame_def label_of_def args_of_def)

lemma dirname_opt: "dirname ''/opt/omnitrace/__init__.py'' = ''/opt/omnitrace''"
  by (simp add: dirname_def)

lemma dirname_usr: "dirname ''/usr/lib/omnitrace/__init__.py'' = ''/usr/lib/omnitrace''"
  by (simp add: dirname_def)

lemma running_world_config:
  "the_config running_world 0
     = default_config\<lparr>base_module_path := ''/opt/omnitrace'', is_running := True\<rparr>"
  by (simp add: running_world_def profiler_init_File dirname_opt Let_def)
     (simp add: default_config_def)

lemma running_world_known: "tl_instance running_world 0 \<noteq> None"
  by (simp add: running_world_def profiler_init_File Let_def)

lemma running_world_omnitrace_path: "omnitrace_path running_world = None"
  by (simp add: running_world_def initial_world_def)

lemma running_world_tls: "tls running_world = (\<lambda>_. initial_thread_locals)"
  by (simp add: running_world_def initial_world_def)

lemma strncmp_app_opt: "\<not> strncmp_eq ''/home/user/app.py'' ''/opt/omnitrace'' (length ''/opt/omnitrace'')"
  by simp

lemma default_filters_app:
  assumes "include_functions cfg = []" and "include_filenames cfg = []"
    and "exclude_functions cfg = exclude_functions default_config"
    and "exclude_filenames cfg = exclude_filenames default_config"
  shows "passes_filters no_match cfg ''/opt/omnitrace'' ''foo'' ''/home/user/app.py'' = Inr True"
  using assms by (simp add: passes_filters_def default_config_def no_match_def)

lemma decide_app_call:
  assumes "include_functions cfg = []" and "include_filenames cfg = []"
    and "exclude_functions cfg = exclude_functions default_config"
    and "exclude_filenames cfg = exclude_filenames default_config"
    and "verbose cfg = 0" and "\<not> include_args cfg" and "\<not> include_filename cfg"
    and "\<not> include_line cfg"
  shows "decide no_match cfg ''/opt/omnitrace'' app_frame ''call'' = Accepted PyTrace_CALL ''foo''"
  using assms
  by (simp add: decide_def what_of_def app_frame_def default_filters_app label_of_def)

lemma traced_world_eq:
  "traced_world
     = record_event 0 PyTrace_CALL ''foo'' (running_world\<lparr>omnitrace_path := Some ''/opt/omnitrace''\<rparr>)"
proof -
  have idle: "\<not> disable (tls running_world 0)"
    by (simp add: running_world_tls initial_thread_locals_def)
  have path: "init_omnitrace_path 0 running_world
      = (''/opt/omnitrace'', running_world\<lparr>omnitrace_path := Some ''/opt/omnitrace''\<rparr>)"
    by (simp add: init_omnitrace_path_def running_world_omnitrace_path running_world_config
          Let_def)
  have dec: "decide no_match (the_config running_world 0) ''/opt/omnitrace'' app_frame ''call''
      = Accepted PyTrace_CALL ''foo''"
    by (rule decide_app_call) (simp_all add: running_world_config default_config_def)
  show ?thesis
    using idle
    by (simp add: traced_world_def profiler_function_finish get_config_known running_world_known
          path dec finish_def)
qed

lemma traced_world_depth: "depth_tracker (tls traced_world 0) = 1"
  by (simp add: traced_world_eq record_event_tls next_depth_def is_call_def running_world_tls
        initial_thread_locals_def)

lemma traced_world_known: "tl_instance traced_world 0 \<noteq> None"
  using running_world_known
  by (simp add: traced_world_eq record_event_alt profiler_call_def is_call_def Let_def
        del: not_None_eq)

lemma traced_world_config:
  "the_config traced_world 0
     = default_config\<lparr>base_module_path := ''/opt/omnitrace'', is_running := True,
         records := [0 \<mapsto> [''foo'' \<mapsto> [Profiler ''foo'']]]\<rparr>"
  by (simp add: traced_world_eq the_config_record_event_call running_world_config
        running_world_tls initial_thread_locals_def Let_def)
     (simp add: default_config_def)

lemma restarted_world_config:
  "the_config restarted_world 0
     = default_config\<lparr>base_module_path := ''/opt/omnitrace'', is_running := True\<rparr>"
  by (simp add: restarted_world_def the_config_profiler_init_File the_config_profiler_finalize
        get_config_known traced_world_known traced_world_config dirname_opt Let_def)
     (simp add: default_config_def)

lemma restarted_world_known: "tl_instance restarted_world 0 \<noteq> None"
  by (simp add: restarted_world_def)

lemma restarted_world_omnitrace_path: "omnitrace_path restarted_world = Some ''/opt/omnitrace''"
  by (simp add: restarted_world_def traced_world_eq record_event_alt profiler_call_def is_call_def
        Let_def)

lemma restarted_world_tls:
  "depth_tracker (tls restarted_world 0) = 1" "\<not> disable (tls restarted_world 0)"
  by (simp_all add: restarted_world_def traced_world_eq record_event_tls next_depth_def is_call_def
        running_world_tls initial_thread_locals_def)

lemma restarted_world_call:
  "snd (profiler_function no_match 0 (Some app_frame) ''call'' restarted_world)
     = record_event 0 PyTrace_CALL ''foo'' restarted_world"
proof -
  have path: "init_omnitrace_path 0 restarted_world = (''/opt/omnitrace'', restarted_world)"
    by (simp add: init_omnitrace_path_def restarted_world_omnitrace_path)
  have dec: "decide no_match (the_config restarted_world 0) ''/opt/omnitrace'' app_frame ''call''
      = Accepted PyTrace_CALL ''foo''"
    by (rule decide_app_call) (simp_all add: restarted_world_config default_config_def)
  show ?thesis
    using restarted_world_tls(2)
    by (simp add: profiler_function_finish get_config_known restarted_world_known path dec
          finish_def)
qed

lemma two_threads_tl_instance:
  "tl_instance two_threads 0 = Some Points_to_instance"
  "tl_instance two_threads 1 = Some (Points_to_tmp (copy_config default_config))"
  by (simp_all add: two_threads_def get_config_def initial_world_def)

lemma two_threads_fields:
  "omnitrace_path two_threads = None" "tls two_threads = (\<lambda>_. initial_thread_locals)"
  "sink two_threads = []"
  by (simp_all add: two_threads_def initial_world_def)

lemma two_threads_config:
  "the_config two_threads 0 = default_config" "the_config two_threads 1 = default_config"
proof -
  show "the_config two_threads 0 = default_config"
    unfolding the_config_def two_threads_tl_instance
    by (simp add: two_threads_def get_config_def initial_world_def)
  have "copy_config default_config = default_config"
    by (simp add: copy_config_eq) (simp add: default_config_def)
  then show "the_config two_threads 1 = default_config"
    unfolding the_config_def two_threads_tl_instance by simp
qed

lemma two_threads_owns: "owns_copy two_threads 1" "tl_instance two_threads 0 \<noteq> None"
  "tl_instance two_threads 1 \<noteq> None"
  unfolding owns_copy_def two_threads_tl_instance by simp_all

lemma started_two_threads_eq:
  "started_two_threads
     = put_config 0 (default_config\<lparr>base_module_path := ''/opt/omnitrace'', is_running := True\<rparr>)
         two_threads"
  by (simp add: started_two_threads_def profiler_init_File get_config_known two_threads_owns
        two_threads_config dirname_opt Let_def)
     (simp add: default_config_def)

lemma started_two_threads_facts:
  "the_config started_two_threads 0
     = default_config\<lparr>base_module_path := ''/opt/omnitrace'', is_running := True\<rparr>"
  "the_config started_two_threads 1 = default_config"
  "omnitrace_path started_two_threads = None"
  "tls started_two_threads = (\<lambda>_. initial_thread_locals)"
  "owns_copy started_two_threads 1"
  "tl_instance started_two_threads 0 \<noteq> None"
  "tl_instance started_two_threads 1 \<noteq> None"
proof -
  have ne: "(1 :: nat) \<noteq> 0"
    by simp
  show "the_config started_two_threads 0
     = default_config\<lparr>base_module_path := ''/opt/omnitrace'', is_running := True\<rparr>"
    unfolding started_two_threads_eq by (rule the_config_put_config)
  have "the_config started_two_threads 1 = the_config two_threads 1"
    unfolding started_two_threads_eq
    by (rule the_config_put_config_other [OF ne]) (rule disjI1, rule two_threads_owns(1))
  then show "the_config started_two_threads 1 = default_config"
    by (simp only: two_threads_config)
  show "omnitrace_path started_two_threads = None"
    unfolding started_two_threads_eq by (simp add: two_threads_fields)
  show "tls started_two_threads = (\<lambda>_. initial_thread_locals)"
    unfolding started_two_threads_eq by (simp add: two_threads_fields)
  show "owns_copy started_two_threads 1"
    unfolding started_two_threads_eq owns_copy_put_config by (rule two_threads_owns(1))
  show "tl_instance started_two_threads 0 \<noteq> None"
    unfolding started_two_threads_eq put_config_tl_instance_None by (rule two_threads_owns(2))
  show "tl_instance started_two_threads 1 \<noteq> None"
    unfolding started_two_threads_eq put_config_tl_instance_None by (rule two_threads_owns(3))
qed

lemma second_thread_depth:
  assumes "a \<noteq> b" and "owns_copy w b" and "tl_instance w a \<noteq> None" and "tl_instance w b \<noteq> None"
    and "the_config w b = default_config" and "tls w = (\<lambda>_. initial_thread_locals)"
    and "omnitrace_path w = None"
    and "decide no_match default_config (base_module_path (the_config w a)) app_frame ''call'' = d"
  shows "depth_tracker
           (tls (snd (profiler_function no_match b (Some app_frame) ''call''
                        (snd (profiler_function no_match a (Some app_frame) ''call'' w)))) b)
     = (case d of Accepted what label \<Rightarrow> 1 | _ \<Rightarrow> 0)"
proof -
  let ?w' = "snd (profiler_function no_match a (Some app_frame) ''call'' w)"
  have idle0: "\<not> disable (tls w a)"
    using assms(6) by (simp add: initial_thread_locals_def)
  have tls1: "tls ?w' b = initial_thread_locals"
    using assms(1,6) tls_profiler_function_other [of a b no_match "Some app_frame" "''call''" w]
    by simp
  then have idle1: "\<not> disable (tls ?w' b)"
    by (simp add: initial_thread_locals_def)
  have cfg1: "the_config ?w' b = default_config"
    using assms(1,2,3,5) by (simp add: the_config_profiler_function_other)
  have known1: "tl_instance ?w' b \<noteq> None"
    using assms(4) by (rule profiler_function_known)
  have path: "omnitrace_path ?w' = Some (base_module_path (the_config w a))"
    using idle0 assms(3,7) by (simp add: omnitrace_path_profiler_function_Some get_config_known)
  have run: "profiler_function no_match b (Some app_frame) ''call'' ?w' = finish b d ?w'"
    using idle1
    by (simp add: profiler_function_finish get_config_known known1 cfg1
          init_omnitrace_path_captured [OF path] assms(8))
  show ?thesis
  proof (cases d)
    case Rejected
    with run tls1 show ?thesis
      by (simp add: finish_def initial_thread_locals_def)
  next
    case (Throws e)
    with run tls1 show ?thesis
      by (simp add: finish_def initial_thread_locals_def)
  next
    case (Accepted what label)
    with assms(8) have "what_of ''call'' = Some what"
      by (simp add: decide_Accepted)
    then have "what = PyTrace_CALL"
      by (simp add: what_of_def)
    with Accepted run tls1 show ?thesis
      by (simp add: finish_def record_event_tls next_depth_def is_call_def
            initial_thread_locals_def)
  qed
qed

lemma decide_app_empty_path:
  "decide no_match default_config [] app_frame ''call'' = Rejected"
  by (simp add: decide_def what_of_def passes_filters_def default_config_def no_match_def
        app_frame_def)

lemma sink_record_event_call:
  "sink (record_event t PyTrace_CALL label w) = sink w @ [Push_region label]"
  by (simp add: record_event_alt Let_def is_call_def sink_profiler_call)

lemma null_frame_world:
  "snd (profiler_function no_match 0 None ''call'' initial_world) = get_config 0 initial_world"
  by (simp add: profiler_function_None_idle initial_world_def initial_thread_locals_def)

lemma running_world_after_null_frame:
  "snd (profiler_init (File ''/opt/omnitrace/__init__.py'') 0 (get_config 0 initial_world))
     = running_world"
  by (simp add: running_world_def profiler_init_File)

lemma initial_world_include_internal:
  "\<not> include_internal (the_config (get_config 0 initial_world) 0)"
  by (simp add: default_config_def)

lemma args_world_fields:
  "omnitrace_path args_world = None" "tls args_world = (\<lambda>_. initial_thread_locals)"
  "sink args_world = []"
  by (simp_all add: args_world_def set_include_internal_def initial_world_def)

lemma args_world_init_omnitrace_path:
  "init_omnitrace_path 0 args_world = ([], args_world\<lparr>omnitrace_path := Some []\<rparr>)"
  by (simp add: init_omnitrace_path_def args_world_fields args_world_config default_config_def)

lemma decide_args_examples:
  assumes "cfg\<lparr>records := Map.empty\<rparr>
             = default_config\<lparr>include_internal := True, include_args := True, records := Map.empty\<rparr>"
  shows "decide no_match cfg [] app_frame ''call'' = Accepted PyTrace_CALL ''foo(x=1)''"
    and "decide no_match cfg [] app_frame ''return'' = Accepted PyTrace_RETURN ''foo(x=1)''"
    and "decide no_match cfg [] inner_frame ''call'' = Accepted PyTrace_CALL ''bar(y=2)''"
    and "decide no_match cfg [] inner_frame ''return'' = Accepted PyTrace_RETURN ''bar(y=2)''"
    and "decide no_match cfg [] inner_failing ''return'' = Throws Error_already_set"
    and "decide no_match cfg [] app_frame ''line'' = Rejected"
proof -
  have eq: "decide no_match cfg [] frame swhat
      = decide no_match (default_config\<lparr>include_internal := True, include_args := True\<rparr>) []
          frame swhat" for frame swhat
    by (rule decide_modulo_records) (simp add: assms)
  show "decide no_match cfg [] app_frame ''call'' = Accepted PyTrace_CALL ''foo(x=1)''"
    and "decide no_match cfg [] app_frame ''return'' = Accepted PyTrace_RETURN ''foo(x=1)''"
    and "decide no_match cfg [] inner_frame ''call'' = Accepted PyTrace_CALL ''bar(y=2)''"
    and "decide no_match cfg [] inner_frame ''return'' = Accepted PyTrace_RETURN ''bar(y=2)''"
    and "decide no_match cfg [] inner_failing ''return'' = Throws Error_already_set"
    and "decide no_match cfg [] app_frame ''line'' = Rejected"
    unfolding eq
    by (simp_all add: decide_def what_of_def passes_filters_def default_config_def no_match_def
          app_frame_def inner_frame_def inner_failing_def label_of_def args_of_def)
qed

lemma args_world_idle: "\<not> disable (tls args_world 0)"
  by (simp add: args_world_fields initial_thread_locals_def)

lemma reached_args_world:
  "reached no_match 0 (Some app_frame) ''call'' args_world = Some (PyTrace_CALL, ''foo(x=1)'')"
  by (simp add: reached_def args_world_idle get_config_known args_world_known
        args_world_init_omnitrace_path decide_args_examples args_world_config)

lemma entered_world_eq:
  "entered_world
     = record_event 0 PyTrace_CALL ''foo(x=1)'' (args_world\<lparr>omnitrace_path := Some []\<rparr>)"
  by (simp add: entered_world_def profiler_function_reached [OF reached_args_world]
        get_config_known args_world_known args_world_init_omnitrace_path)

lemma entered_world_settled:
  "tl_instance entered_world 0 \<noteq> None" "omnitrace_path entered_world = Some []"
  "\<not> disable (tls entered_world 0)"
  using profiler_function_reached_settled [OF reached_args_world]
  by (simp_all add: entered_world_def get_config_known args_world_known
        args_world_init_omnitrace_path del: not_None_eq)

lemma entered_world_config:
  "the_config entered_world 0
     = default_config\<lparr>include_internal := True, include_args := True,
         records := [0 \<mapsto> [''foo(x=1)'' \<mapsto> [Profiler ''foo(x=1)'']]]\<rparr>"
  by (simp add: entered_world_eq the_config_record_event_call args_world_config args_world_fields
        initial_thread_locals_def Let_def)
     (simp add: default_config_def)

lemma entered_world_fields:
  "depth_tracker (tls entered_world 0) = 1" "sink entered_world = [Push_region ''foo(x=1)'']"
  by (simp_all add: entered_world_eq record_event_tls sink_record_event_call next_depth_def
        is_call_def args_world_fields initial_thread_locals_def)

lemma reached_entered_world:
  "reached no_match 0 (Some inner_frame) ''call'' entered_world = Some (PyTrace_CALL, ''bar(y=2)'')"
  by (simp add: reached_settled [OF entered_world_settled] decide_args_examples
        entered_world_config)

lemma inner_world_eq:
  "inner_world = record_event 0 PyTrace_CALL ''bar(y=2)'' entered_world"
  by (simp add: inner_world_def profiler_function_reached [OF reached_entered_world]
        get_config_known entered_world_settled init_omnitrace_path_captured)

lemma inner_world_settled:
  "tl_instance inner_world 0 \<noteq> None" "omnitrace_path inner_world = Some []"
  "\<not> disable (tls inner_world 0)"
  using profiler_function_keeps_settled(1-3) [OF entered_world_settled]
  by (simp_all add: inner_world_def del: not_None_eq)

lemma inner_world_config:
  "the_config inner_world 0
     = default_config\<lparr>include_internal := True, include_args := True,
         records := [0 \<mapsto> [''foo(x=1)'' \<mapsto> [Profiler ''foo(x=1)'']],
                     1 \<mapsto> [''bar(y=2)'' \<mapsto> [Profiler ''bar(y=2)'']]]\<rparr>"
  by (simp add: inner_world_eq the_config_record_event_call entered_world_config
        entered_world_fields Let_def)

lemma inner_world_fields:
  "depth_tracker (tls inner_world 0) = 2"
  "sink inner_world = [Push_region ''foo(x=1)'', Push_region ''bar(y=2)'']"
  by (simp_all add: inner_world_eq record_event_tls sink_record_event_call next_depth_def
        is_call_def entered_world_fields)

lemma inner_world_failing_return:
  "profiler_function no_match 0 (Some inner_failing) ''return'' inner_world
     = (Raised Error_already_set, inner_world)"
  by (simp add: profiler_function_settled [OF inner_world_settled] decide_args_examples
        inner_world_config finish_def)

lemma reached_inner_world:
  "reached no_match 0 (Some app_frame) ''return'' inner_world
     = Some (PyTrace_RETURN, ''foo(x=1)'')"
  by (simp add: reached_settled [OF inner_world_settled] decide_args_examples inner_world_config)

lemma inner_world_no_open_region:
  "no_open_region (records (the_config inner_world 0)) 1 ''foo(x=1)''"
  by (simp add: inner_world_config no_open_region_def)

lemma inner_world_outer_return:
  "snd (profiler_function no_match 0 (Some app_frame) ''return'' inner_world)
     = inner_world\<lparr>tls := (tls inner_world)
         (0 := tls inner_world 0
            \<lparr>labels := strset_insert ''foo(x=1)'' (labels (tls inner_world 0)),
               depth_tracker := 1\<rparr>)\<rparr>"
  using inner_world_no_open_region
  by (simp add: profiler_function_reached [OF reached_inner_world] get_config_known
        inner_world_settled init_omnitrace_path_captured record_event_return_miss is_call_def
        inner_world_fields)

lemma entered_world_call:
  "entered_world
     = profiler_call 0 0 ''foo(x=1)''
         (args_world\<lparr>omnitrace_path := Some [],
            tls := (tls args_world)
              (0 := tls args_world 0
                 \<lparr>labels := strset_insert ''foo(x=1)'' (labels (tls args_world 0)),
                    depth_tracker := 1\<rparr>)\<rparr>)"
  by (simp add: entered_world_eq record_event_alt next_depth_def is_call_def args_world_fields
        initial_thread_locals_def)

lemma inner_world_outer_return_depth:
  "snd (profiler_function no_match 0 (Some app_frame) ''return'' inner_world)
     = profiler_return 0 1 ''foo(x=1)''
         (inner_world\<lparr>tls := (tls inner_world)
            (0 := tls inner_world 0
               \<lparr>labels := strset_insert ''foo(x=1)'' (labels (tls inner_world 0)),
                  depth_tracker := 1\<rparr>)\<rparr>)"
  by (simp add: profiler_function_reached [OF reached_inner_world] get_config_known
        inner_world_settled init_omnitrace_path_captured record_event_alt next_depth_def
        is_call_def inner_world_fields)

lemma counted_nested_events:
  "counted no_match 0 nested_events entered_world = [PyTrace_CALL, PyTrace_RETURN]"
  by (simp only: counted_settled [OF entered_world_settled refl])
     (simp add: nested_events_def decide_args_examples entered_world_config)

lemma reached_after_nested_events:
  "reached no_match 0 (Some app_frame) ''return''
     (run_events no_match 0 nested_events entered_world) = Some (PyTrace_RETURN, ''foo(x=1)'')"
proof -
  note s = run_events_settled [OF entered_world_settled, where rx = no_match
      and evs = nested_events and r = Map.empty]
  from s have cfg: "(the_config (run_events no_match 0 nested_events entered_world) 0)
        \<lparr>records := Map.empty\<rparr>
      = default_config\<lparr>include_internal := True, include_args := True, records := Map.empty\<rparr>"
    by (simp add: entered_world_config)
  from s have settled: "tl_instance (run_events no_match 0 nested_events entered_world) 0 \<noteq> None"
      "omnitrace_path (run_events no_match 0 nested_events entered_world) = Some []"
      "\<not> disable (tls (run_events no_match 0 nested_events entered_world) 0)"
    by simp_all
  show ?thesis
    by (simp add: reached_settled [OF settled] decide_args_examples(2) [OF cfg])
qed

section \<open>The claims\<close>

text \<open>
  C1, as the spec states it: the setter of a pattern set replaces the set by the patterns
  of the list. It fails on the code: after \<^verbatim>\<open>skip_functions = ["^mine$"]\<close> on a fresh
  configuration the set still holds the default patterns.
\<close>

theorem strset_setter_replaces_counterexample:
  "set (exclude_functions
          (the_config (snd (set_skip_functions [Py_str ''^mine$''] 0 initial_world)) 0))
     \<noteq> set [''^mine$'']"
  by (simp add: set_skip_functions_def configuration_strset_set_config strset_insert_def
        default_config_def)

text \<open>
  C1, amended. For each of the four pattern sets (only-functions, only-filenames,
  skip-functions, skip-filenames), the setter called with a list \<open>L\<close> of strings returns
  and leaves the set holding its previous patterns together with those of \<open>L\<close>: the
  patterns are inserted, nothing is removed.
\<close>

theorem strset_setter_inserts:
  "fst (set_only_functions (map Py_str L) t w) = Returned
   \<and> set (include_functions (the_config (snd (set_only_functions (map Py_str L) t w)) t))
       = set (include_functions (the_config (get_config t w) t)) \<union> set L
   \<and> fst (set_only_filenames (map Py_str L) t w) = Returned
   \<and> set (include_filenames (the_config (snd (set_only_filenames (map Py_str L) t w)) t))
       = set (include_filenames (the_config (get_config t w) t)) \<union> set L
   \<and> fst (set_skip_functions (map Py_str L) t w) = Returned
   \<and> set (exclude_functions (the_config (snd (set_skip_functions (map Py_str L) t w)) t))
       = set (exclude_functions (the_config (get_config t w) t)) \<union> set L
   \<and> fst (set_skip_filenames (map Py_str L) t w) = Returned
   \<and> set (exclude_filenames (the_config (snd (set_skip_filenames (map Py_str L) t w)) t))
       = set (exclude_filenames (the_config (get_config t w) t)) \<union> set L"
proof -
  have out: "fst (set_strset (map Py_str L) targ) = Returned" for targ
    using set_strset_strings [of L targ] by (metis fst_conv)
  have elems: "set (snd (set_strset (map Py_str L) targ)) = set targ \<union> set L" for targ
    using set_strset_strings [of L targ] by blast
  show ?thesis
    by (simp add: set_only_functions_def set_only_filenames_def set_skip_functions_def
          set_skip_filenames_def configuration_strset_set_config
          configuration_strset_set_outcome out elems)
qed

theorem strset_setter_inserts_witness:
  "fst (set_only_functions (map Py_str [''^work_'']) 0 initial_world) = Returned
   \<and> set (include_functions
            (the_config (snd (set_only_functions (map Py_str [''^work_'']) 0 initial_world)) 0))
       = set (include_functions (the_config (get_config 0 initial_world) 0)) \<union> set [''^work_'']
   \<and> set (exclude_functions
            (the_config (snd (set_skip_functions (map Py_str [''^work_'']) 0 initial_world)) 0))
       = set (exclude_functions (the_config (get_config 0 initial_world) 0)) \<union> set [''^work_'']"
  using strset_setter_inserts [of "[''^work_'']" 0 initial_world]
  by (elim conjE) (intro conjI; assumption)

text \<open>
  C2, as the spec states it: the depth counter of a thread is 0 after tracing restarts. It
  fails on the code: after start-session, one accepted call event, stop-session and
  start-session, the counter is 1, and the next call event is recorded at depth 1.
\<close>

theorem depth_reset_on_restart_counterexample:
  "depth_tracker (tls restarted_world 0) \<noteq> 0
   \<and> records (the_config (snd (profiler_function no_match 0 (Some app_frame) ''call''
                                  restarted_world)) 0) 0 = None
   \<and> records (the_config (snd (profiler_function no_match 0 (Some app_frame) ''call''
                                  restarted_world)) 0) 1 \<noteq> None"
  by (simp add: restarted_world_call the_config_record_event_call restarted_world_tls
        restarted_world_config Let_def)
     (simp add: default_config_def)

text \<open>
  C2, amended. The depth counter of a thread is 0 when the thread starts. Start-session and
  stop-session leave the thread-local statics, the depth counter among them, unchanged:
  after a stop-session followed by a start-session the first event dispatched on the
  thread observes the depth computed from the value that the earlier events left.
\<close>

theorem depth_counter_lifecycle:
  "depth_tracker (tls initial_world t) = 0
   \<and> tls (snd (profiler_init fr t' w)) = tls w
   \<and> tls (profiler_finalize t' w) = tls w
   \<and> depth_tracker (tls (snd (profiler_init fr t' (profiler_finalize t' w))) t)
       = depth_tracker (tls w t)"
  by (simp add: initial_world_def initial_thread_locals_def)

theorem depth_counter_lifecycle_witness:
  "depth_tracker (tls initial_world 0) = 0
   \<and> tls (profiler_finalize 0 traced_world) = tls traced_world
   \<and> depth_tracker
        (tls (snd (profiler_init (File ''/opt/omnitrace/__init__.py'') 0
                     (profiler_finalize 0 traced_world))) 0)
       = depth_tracker (tls traced_world 0)"
  using depth_counter_lifecycle [of 0 "File ''/opt/omnitrace/__init__.py''" 0 traced_world]
  by (elim conjE) (intro conjI; assumption)

text \<open>
  C3, as the spec states it: every thread operates on a private copy of the configuration,
  a mutation made through a thread leaves the process-wide instance unchanged, and a
  mutation on a thread A does not change the filtering decisions of a thread B whose
  copy exists. It fails on the code. The first thread observed gets the process-wide
  instance itself: a setter called on it changes that instance, and a thread observed
  afterwards is seeded with the changed value. And the installation path is captured for
  the whole process from the configuration of the thread that dispatches first: with
  both configurations in existence, whether thread 0 has had its \<^verbatim>\<open>base_module_path\<close> set
  before it dispatches decides whether the same event is accepted on thread 1.
\<close>

theorem private_copy_counterexample:
  "tl_instance (get_config 0 initial_world) 0 = Some Points_to_instance
   \<and> trace_c (proc_instance (set_trace_c True 0 initial_world))
       \<noteq> trace_c (proc_instance initial_world)
   \<and> trace_c (the_config (get_config 1 (set_trace_c True 0 initial_world)) 1)
   \<and> depth_tracker
        (tls (snd (profiler_function no_match 1 (Some app_frame) ''call''
                     (snd (profiler_function no_match 0 (Some app_frame) ''call''
                            (snd (profiler_init (File ''/opt/omnitrace/__init__.py'') 0
                                   two_threads)))))) 1) = 1
   \<and> depth_tracker
        (tls (snd (profiler_function no_match 1 (Some app_frame) ''call''
                     (snd (profiler_function no_match 0 (Some app_frame) ''call''
                            two_threads)))) 1) = 0"
proof -
  have a: "tl_instance (get_config 0 initial_world) 0 = Some Points_to_instance
      \<and> trace_c (proc_instance (set_trace_c True 0 initial_world))
          \<noteq> trace_c (proc_instance initial_world)
      \<and> trace_c (the_config (get_config 1 (set_trace_c True 0 initial_world)) 1)"
    by (simp add: set_trace_c_def configuration_property_set_def get_config_def put_config_def
          the_config_def initial_world_def default_config_def copy_config_def)
  have acc: "decide no_match default_config ''/opt/omnitrace'' app_frame ''call''
      = Accepted PyTrace_CALL ''foo''"
    by (rule decide_app_call) (simp_all add: default_config_def)
  have ne: "(0 :: nat) \<noteq> 1"
    by simp
  have acc': "decide no_match default_config (base_module_path (the_config started_two_threads 0))
      app_frame ''call'' = Accepted PyTrace_CALL ''foo''"
    by (simp add: started_two_threads_facts acc)
  have rej': "decide no_match default_config (base_module_path (the_config two_threads 0))
      app_frame ''call'' = Rejected"
    by (simp add: two_threads_config decide_app_empty_path) (simp add: default_config_def decide_app_empty_path [unfolded default_config_def])
  have b: "depth_tracker
        (tls (snd (profiler_function no_match 1 (Some app_frame) ''call''
                     (snd (profiler_function no_match 0 (Some app_frame) ''call''
                            started_two_threads)))) 1) = 1"
    using second_thread_depth [OF ne started_two_threads_facts(5,6,7,2,4,3) acc']
    by simp
  have c: "depth_tracker
        (tls (snd (profiler_function no_match 1 (Some app_frame) ''call''
                     (snd (profiler_function no_match 0 (Some app_frame) ''call''
                            two_threads)))) 1) = 0"
    using second_thread_depth [OF ne two_threads_owns two_threads_config(2)
        two_threads_fields(2,1) rej']
    by simp
  from a b c show ?thesis
    by (simp add: started_two_threads_def)
qed

text \<open>
  C3, amended. The thread that draws 0 from the counter of \<^verbatim>\<open>get_config\<close> operates on the
  process-wide instance itself. Every other thread operates on a copy made at its first
  observation, equal to the process-wide instance of that moment but for
  \<^verbatim>\<open>ignore_stack_depth\<close>, \<^verbatim>\<open>base_stack_depth\<close> and \<^verbatim>\<open>records\<close>, which start from their
  defaults; making the copy leaves the instance unchanged. A mutation through a thread
  that owns a copy leaves the process-wide instance unchanged. For two different threads
  A and B whose configurations exist and of which at least one owns a copy, a mutation on
  A leaves the configuration of B unchanged and commutes with every call of
  \<^verbatim>\<open>profiler_function\<close> on B: the outcome is the same, and the state after it differs only
  by the mutation on A. (The installation path captured by the first dispatch is shared
  by all threads; C10 states what holds for it.)
\<close>

theorem per_thread_configuration:
  "(tl_instance w t = None \<and> count w = 0
      \<longrightarrow> tl_instance (get_config t w) t = Some Points_to_instance)
   \<and> (tl_instance w t = None \<and> count w \<noteq> 0
      \<longrightarrow> tl_instance (get_config t w) t
            = Some (Points_to_tmp ((proc_instance w)\<lparr>ignore_stack_depth := 0,
                      base_stack_depth := - 1, records := Map.empty\<rparr>))
          \<and> proc_instance (get_config t w) = proc_instance w)
   \<and> (owns_copy w A \<longrightarrow> proc_instance (configuration_property_set upd A w) = proc_instance w)
   \<and> (A \<noteq> B \<and> (owns_copy w A \<or> owns_copy w B) \<and> tl_instance w A \<noteq> None
        \<and> tl_instance w B \<noteq> None
      \<longrightarrow> the_config (configuration_property_set upd A w) B = the_config w B
          \<and> profiler_function rx B pframe swhat (configuration_property_set upd A w)
              = (fst (profiler_function rx B pframe swhat w),
                 configuration_property_set upd A (snd (profiler_function rx B pframe swhat w))))"
proof (intro conjI impI)
  assume "tl_instance w t = None \<and> count w = 0"
  then show "tl_instance (get_config t w) t = Some Points_to_instance"
    by (simp add: get_config_def)
next
  assume new: "tl_instance w t = None \<and> count w \<noteq> 0"
  then show "tl_instance (get_config t w) t
            = Some (Points_to_tmp ((proc_instance w)\<lparr>ignore_stack_depth := 0,
                      base_stack_depth := - 1, records := Map.empty\<rparr>))"
    by (simp add: get_config_def copy_config_eq)
  from new show "proc_instance (get_config t w) = proc_instance w"
    by (simp add: get_config_def)
next
  assume "owns_copy w A"
  then show "proc_instance (configuration_property_set upd A w) = proc_instance w"
    by (cases w A rule: owns_copy_cases)
       (simp_all add: configuration_property_set_def get_config_def put_config_def)
next
  assume sep: "A \<noteq> B \<and> (owns_copy w A \<or> owns_copy w B) \<and> tl_instance w A \<noteq> None
        \<and> tl_instance w B \<noteq> None"
  then have ne: "B \<noteq> A" and own: "owns_copy w B \<or> owns_copy w A"
    and kA: "tl_instance w A \<noteq> None" and kB: "tl_instance w B \<noteq> None"
    by auto
  show "the_config (configuration_property_set upd A w) B = the_config w B"
    using ne own kA by (simp add: configuration_property_set_known_eq the_config_put_config_other)
  have same: "the_config (snd (profiler_function rx B pframe swhat w)) A = the_config w A"
    using ne own kB by (rule the_config_profiler_function_other)
  have kA': "tl_instance (snd (profiler_function rx B pframe swhat w)) A \<noteq> None"
    using kA by (rule profiler_function_known)
  show "profiler_function rx B pframe swhat (configuration_property_set upd A w)
      = (fst (profiler_function rx B pframe swhat w),
         configuration_property_set upd A (snd (profiler_function rx B pframe swhat w)))"
    using ne own kB
    by (simp add: configuration_property_set_known_eq [OF kA]
          configuration_property_set_known_eq [OF kA'] same profiler_function_put_config_other)
qed

theorem per_thread_configuration_witness:
  "(tl_instance initial_world 0 = None \<and> count initial_world = 0)
   \<and> tl_instance (get_config 0 initial_world) 0 = Some Points_to_instance
   \<and> (tl_instance (get_config 0 initial_world) 1 = None \<and> count (get_config 0 initial_world) \<noteq> 0)
   \<and> tl_instance (get_config 1 (get_config 0 initial_world)) 1
       = Some (Points_to_tmp ((proc_instance (get_config 0 initial_world))
                 \<lparr>ignore_stack_depth := 0, base_stack_depth := - 1, records := Map.empty\<rparr>))
   \<and> owns_copy two_threads 1
   \<and> proc_instance (configuration_property_set (\<lambda>c. c\<lparr>trace_c := True\<rparr>) 1 two_threads)
       = proc_instance two_threads
   \<and> (0 \<noteq> (1 :: nat) \<and> (owns_copy two_threads 0 \<or> owns_copy two_threads 1)
        \<and> tl_instance two_threads 0 \<noteq> None \<and> tl_instance two_threads 1 \<noteq> None)
   \<and> the_config (configuration_property_set (\<lambda>c. c\<lparr>trace_c := True\<rparr>) 0 two_threads) 1
       = the_config two_threads 1
   \<and> profiler_function no_match 1 (Some app_frame) ''c_call''
        (configuration_property_set (\<lambda>c. c\<lparr>trace_c := True\<rparr>) 0 two_threads)
       = (fst (profiler_function no_match 1 (Some app_frame) ''c_call'' two_threads),
          configuration_property_set (\<lambda>c. c\<lparr>trace_c := True\<rparr>) 0
            (snd (profiler_function no_match 1 (Some app_frame) ''c_call'' two_threads)))"
proof -
  have first: "tl_instance initial_world 0 = None \<and> count initial_world = 0"
    by (simp add: initial_world_def)
  have later: "tl_instance (get_config 0 initial_world) 1 = None
      \<and> count (get_config 0 initial_world) \<noteq> 0"
    by (simp add: get_config_def initial_world_def)
  have own: "owns_copy two_threads 1"
    unfolding owns_copy_def two_threads_tl_instance by simp
  have sep: "0 \<noteq> (1 :: nat) \<and> (owns_copy two_threads 0 \<or> owns_copy two_threads 1)
        \<and> tl_instance two_threads 0 \<noteq> None \<and> tl_instance two_threads 1 \<noteq> None"
    using own unfolding two_threads_tl_instance by simp
  note c1 = per_thread_configuration [where w = initial_world and t = 0,
    THEN conjunct1, THEN mp, OF first]
  note c2 = per_thread_configuration [where w = "get_config 0 initial_world" and t = 1,
    THEN conjunct2, THEN conjunct1, THEN mp, OF later, THEN conjunct1]
  note c3 = per_thread_configuration [where w = two_threads and A = 1
    and upd = "\<lambda>c. c\<lparr>trace_c := True\<rparr>",
    THEN conjunct2, THEN conjunct2, THEN conjunct1, THEN mp, OF own]
  note c4 = per_thread_configuration [where w = two_threads and A = 0 and B = 1
    and rx = no_match and pframe = "Some app_frame" and swhat = "''c_call''"
    and upd = "\<lambda>c. c\<lparr>trace_c := True\<rparr>",
    THEN conjunct2, THEN conjunct2, THEN conjunct2, THEN mp, OF sep]
  from first c1 later c2 own c3 sep c4 show ?thesis
    by blast
qed

text \<open>
  C4, as the spec states it: in a well-formed sequence of calls and returns the depth of a
  return is the depth of the call it closes. It fails on the code when an event of the
  sequence does not reach the depth computation. With \<^verbatim>\<open>include_args\<close> on: \<^verbatim>\<open>foo\<close> is called
  (depth 0, counter 1), \<^verbatim>\<open>bar\<close> is called (depth 1, counter 2), the return event of \<^verbatim>\<open>bar\<close>
  throws while its arguments are formatted, before the counter is touched, and the return
  event of \<^verbatim>\<open>foo\<close> is looked up at depth 1, not 0: the region of \<^verbatim>\<open>foo\<close> is never closed.
\<close>

theorem depth_of_return_counterexample:
  "what_of ''call'' = Some PyTrace_CALL \<and> what_of ''return'' = Some PyTrace_RETURN
   \<and> balanced 0 [PyTrace_CALL, PyTrace_RETURN]
   \<and> snd (profiler_function no_match 0 (Some app_frame) ''call'' args_world)
       = profiler_call 0 0 ''foo(x=1)''
           (args_world\<lparr>omnitrace_path := Some [],
              tls := (tls args_world)
                (0 := tls args_world 0
                   \<lparr>labels := strset_insert ''foo(x=1)'' (labels (tls args_world 0)),
                      depth_tracker := 1\<rparr>)\<rparr>)
   \<and> fst (profiler_function no_match 0 (Some inner_frame) ''call'' entered_world) = Returned
   \<and> depth_tracker (tls inner_world 0) = 2
   \<and> profiler_function no_match 0 (Some inner_failing) ''return'' inner_world
       = (Raised Error_already_set, inner_world)
   \<and> profiler_function no_match 0 (Some app_frame) ''return'' inner_world
       = (Returned,
          profiler_return 0 1 ''foo(x=1)''
            (inner_world\<lparr>tls := (tls inner_world)
               (0 := tls inner_world 0
                  \<lparr>labels := strset_insert ''foo(x=1)'' (labels (tls inner_world 0)),
                     depth_tracker := 1\<rparr>)\<rparr>))
   \<and> sink (run_events no_match 0
              [(Some app_frame, ''call''), (Some inner_frame, ''call''),
               (Some inner_failing, ''return''), (Some app_frame, ''return'')] args_world)
       = [Push_region ''foo(x=1)'', Push_region ''bar(y=2)'']"
proof -
  have kinds: "what_of ''call'' = Some PyTrace_CALL \<and> what_of ''return'' = Some PyTrace_RETURN
      \<and> balanced 0 [PyTrace_CALL, PyTrace_RETURN]"
    by (simp add: what_of_def is_call_def)
  have outer: "snd (profiler_function no_match 0 (Some app_frame) ''call'' args_world)
       = profiler_call 0 0 ''foo(x=1)''
           (args_world\<lparr>omnitrace_path := Some [],
              tls := (tls args_world)
                (0 := tls args_world 0
                   \<lparr>labels := strset_insert ''foo(x=1)'' (labels (tls args_world 0)),
                      depth_tracker := 1\<rparr>)\<rparr>)"
    using entered_world_call by (simp only: entered_world_def)
  have inner: "fst (profiler_function no_match 0 (Some inner_frame) ''call'' entered_world)
      = Returned"
    by (simp add: profiler_function_reached [OF reached_entered_world])
  have closing: "profiler_function no_match 0 (Some app_frame) ''return'' inner_world
       = (Returned,
          profiler_return 0 1 ''foo(x=1)''
            (inner_world\<lparr>tls := (tls inner_world)
               (0 := tls inner_world 0
                  \<lparr>labels := strset_insert ''foo(x=1)'' (labels (tls inner_world 0)),
                     depth_tracker := 1\<rparr>)\<rparr>))"
    using inner_world_outer_return_depth
    by (simp add: profiler_function_reached [OF reached_inner_world])
  have run: "run_events no_match 0
              [(Some app_frame, ''call''), (Some inner_frame, ''call''),
               (Some inner_failing, ''return''), (Some app_frame, ''return'')] args_world
      = snd (profiler_function no_match 0 (Some app_frame) ''return'' inner_world)"
    by (simp add: entered_world_def [symmetric] inner_world_def [symmetric]
          inner_world_failing_return)
  have sink: "sink (run_events no_match 0
              [(Some app_frame, ''call''), (Some inner_frame, ''call''),
               (Some inner_failing, ''return''), (Some app_frame, ''return'')] args_world)
       = [Push_region ''foo(x=1)'', Push_region ''bar(y=2)'']"
    by (simp only: run inner_world_outer_return) (simp add: inner_world_fields)
  from kinds outer inner inner_world_fields(1) inner_world_failing_return closing sink
  show ?thesis
    by blast
qed

text \<open>
  C4, amended. For an event that reaches the depth computation (flag clear, frame not
  \<^verbatim>\<open>None\<close>, kind recognised, accepted by the filters, arguments and label formatted without
  an exception, label not empty) the depth of a call or native-call event is the value of
  the counter before it is incremented, and the depth of a return or native-return event
  is the value after it is decremented; an event that does not reach the depth computation
  leaves the counter, the other thread-local statics and the sink as they are. The counter
  after a sequence of events is the counter before it, moved by the events of the sequence
  that reached the depth computation. Consequently, when a call event and a later return
  event both reach the depth computation, and the events between them that reach it are
  matched calls and returns, the counter before the return is one more than the counter
  before the call and the depth of the return is the depth of the call.
\<close>

theorem depth_of_call_and_return:
  "(is_call what \<longrightarrow> next_depth what tracker = (tracker, tracker + 1))
   \<and> (\<not> is_call what \<longrightarrow> next_depth what tracker = (tracker - 1, tracker - 1))
   \<and> (reached rx t pframe swhat w = Some (what, label) \<longrightarrow>
        profiler_function rx t pframe swhat w =
          (Returned,
           let w0 = snd (init_omnitrace_path t (get_config t w));
               d = depth_tracker (tls w t);
               at = (\<lambda>x. w0\<lparr>tls := (tls w0)
                            (t := tls w0 t\<lparr>labels := strset_insert label (labels (tls w0 t)),
                                           depth_tracker := x\<rparr>)\<rparr>)
           in if is_call what then profiler_call t d label (at (d + 1))
              else profiler_return t (d - 1) label (at (d - 1))))
   \<and> (reached rx t pframe swhat w = None \<longrightarrow>
        tls (snd (profiler_function rx t pframe swhat w)) = tls w
        \<and> sink (snd (profiler_function rx t pframe swhat w)) = sink w)
   \<and> depth_tracker (tls (run_events rx t evs w) t)
       = run_tracker (counted rx t evs w) (depth_tracker (tls w t))
   \<and> (let d = depth_tracker (tls w t);
           w1 = snd (profiler_function rx t pc sc w);
           w2 = run_events rx t evs w1
       in reached rx t pc sc w = Some (c, lc) \<and> is_call c
          \<and> balanced 0 (counted rx t evs w1)
          \<and> reached rx t pr sr w2 = Some (r, lr) \<and> \<not> is_call r
          \<longrightarrow> depth_tracker (tls w2 t) = d + 1
              \<and> snd (profiler_function rx t pr sr w2)
                  = profiler_return t d lr
                      (w2\<lparr>tls := (tls w2)
                           (t := tls w2 t\<lparr>labels := strset_insert lr (labels (tls w2 t)),
                                          depth_tracker := d\<rparr>)\<rparr>))"
proof -
  have seq: "depth_tracker (tls w2 t) = d + 1
      \<and> snd (profiler_function rx t pr sr w2)
          = profiler_return t d lr
              (w2\<lparr>tls := (tls w2)
                   (t := tls w2 t\<lparr>labels := strset_insert lr (labels (tls w2 t)),
                                  depth_tracker := d\<rparr>)\<rparr>)"
    if d: "d = depth_tracker (tls w t)"
      and w1: "w1 = snd (profiler_function rx t pc sc w)"
      and w2: "w2 = run_events rx t evs w1"
      and call: "reached rx t pc sc w = Some (c, lc)" "is_call c"
      and bal: "balanced 0 (counted rx t evs w1)"
      and ret: "reached rx t pr sr w2 = Some (r, lr)" "\<not> is_call r"
    for d w1 w2
  proof -
    have d1: "depth_tracker (tls w1 t) = d + 1"
      using call(2) by (simp add: w1 d profiler_function_reached [OF call(1)] record_event_tls
            next_depth_def)
    have d2: "depth_tracker (tls w2 t) = d + 1"
      using run_tracker_balanced [OF bal] by (simp add: w2 depth_tracker_run_events d1)
    note s1 = profiler_function_reached_settled [OF call(1), folded w1]
    note s2 = run_events_settled [OF s1, where rx = rx and evs = evs, folded w2]
    from s2 have known: "get_config t w2 = w2"
      by (simp add: get_config_known)
    from s2 have path: "snd (init_omnitrace_path t w2) = w2"
      by (simp add: init_omnitrace_path_captured)
    show ?thesis
      using ret(2) d2
      by (simp add: profiler_function_reached_depth [OF ret(1)] known path Let_def)
  qed
  have a: "is_call what \<longrightarrow> next_depth what tracker = (tracker, tracker + 1)"
    by (simp add: next_depth_def)
  have b: "\<not> is_call what \<longrightarrow> next_depth what tracker = (tracker - 1, tracker - 1)"
    by (simp add: next_depth_def)
  have c: "reached rx t pframe swhat w = Some (what, label) \<longrightarrow>
        profiler_function rx t pframe swhat w =
          (Returned,
           let w0 = snd (init_omnitrace_path t (get_config t w));
               d = depth_tracker (tls w t);
               at = (\<lambda>x. w0\<lparr>tls := (tls w0)
                            (t := tls w0 t\<lparr>labels := strset_insert label (labels (tls w0 t)),
                                           depth_tracker := x\<rparr>)\<rparr>)
           in if is_call what then profiler_call t d label (at (d + 1))
              else profiler_return t (d - 1) label (at (d - 1)))"
    using profiler_function_reached_depth by blast
  have d: "reached rx t pframe swhat w = None \<longrightarrow>
        tls (snd (profiler_function rx t pframe swhat w)) = tls w
        \<and> sink (snd (profiler_function rx t pframe swhat w)) = sink w"
    using profiler_function_not_reached by blast
  note e = depth_tracker_run_events [of rx t evs w]
  have f: "let d = depth_tracker (tls w t);
           w1 = snd (profiler_function rx t pc sc w);
           w2 = run_events rx t evs w1
       in reached rx t pc sc w = Some (c, lc) \<and> is_call c
          \<and> balanced 0 (counted rx t evs w1)
          \<and> reached rx t pr sr w2 = Some (r, lr) \<and> \<not> is_call r
          \<longrightarrow> depth_tracker (tls w2 t) = d + 1
              \<and> snd (profiler_function rx t pr sr w2)
                  = profiler_return t d lr
                      (w2\<lparr>tls := (tls w2)
                           (t := tls w2 t\<lparr>labels := strset_insert lr (labels (tls w2 t)),
                                          depth_tracker := d\<rparr>)\<rparr>)"
    unfolding Let_def using seq [OF refl refl refl] by blast
  from a b c d e f show ?thesis
    by blast
qed

theorem depth_of_call_and_return_witness:
  "is_call PyTrace_CALL \<and> next_depth PyTrace_CALL 0 = (0, 0 + 1)
   \<and> \<not> is_call PyTrace_RETURN \<and> next_depth PyTrace_RETURN 1 = (1 - 1, 1 - 1)
   \<and> reached no_match 0 (Some app_frame) ''call'' args_world = Some (PyTrace_CALL, ''foo(x=1)'')
   \<and> reached no_match 0 None ''call'' args_world = None
   \<and> tls (snd (profiler_function no_match 0 None ''call'' args_world)) = tls args_world
   \<and> sink (snd (profiler_function no_match 0 None ''call'' args_world)) = sink args_world
   \<and> balanced 0 (counted no_match 0 nested_events entered_world)
   \<and> reached no_match 0 (Some app_frame) ''return''
        (run_events no_match 0 nested_events entered_world) = Some (PyTrace_RETURN, ''foo(x=1)'')
   \<and> depth_tracker (tls args_world 0) = 0
   \<and> depth_tracker (tls (run_events no_match 0 nested_events entered_world) 0)
       = depth_tracker (tls args_world 0) + 1
   \<and> snd (profiler_function no_match 0 (Some app_frame) ''return''
             (run_events no_match 0 nested_events entered_world))
       = profiler_return 0 (depth_tracker (tls args_world 0)) ''foo(x=1)''
           ((run_events no_match 0 nested_events entered_world)
              \<lparr>tls := (tls (run_events no_match 0 nested_events entered_world))
                 (0 := tls (run_events no_match 0 nested_events entered_world) 0
                    \<lparr>labels := strset_insert ''foo(x=1)''
                        (labels (tls (run_events no_match 0 nested_events entered_world) 0)),
                       depth_tracker := depth_tracker (tls args_world 0)\<rparr>)\<rparr>)"
proof -
  have c: "is_call PyTrace_CALL" and r: "\<not> is_call PyTrace_RETURN"
    by (simp_all add: is_call_def)
  have none: "reached no_match 0 None ''call'' args_world = None"
    by (simp add: reached_def)
  have bal: "balanced 0 (counted no_match 0 nested_events entered_world)"
    by (simp add: counted_nested_events is_call_def)
  have d: "depth_tracker (tls args_world 0) = 0"
    by (simp add: args_world_fields initial_thread_locals_def)
  note call = depth_of_call_and_return [where what = PyTrace_CALL and tracker = 0,
      THEN conjunct1, THEN mp, OF c]
  note ret = depth_of_call_and_return [where what = PyTrace_RETURN and tracker = 1,
      THEN conjunct2, THEN conjunct1, THEN mp, OF r]
  note skipped = depth_of_call_and_return [where rx = no_match and t = 0 and pframe = None
      and swhat = "''call''" and w = args_world,
      THEN conjunct2, THEN conjunct2, THEN conjunct2, THEN conjunct1, THEN mp, OF none]
  note pair = depth_of_call_and_return [where rx = no_match and t = 0 and w = args_world
      and pc = "Some app_frame" and sc = "''call''" and c = PyTrace_CALL and lc = "''foo(x=1)''"
      and evs = nested_events
      and pr = "Some app_frame" and sr = "''return''" and r = PyTrace_RETURN and lr = "''foo(x=1)''",
      THEN conjunct2, THEN conjunct2, THEN conjunct2, THEN conjunct2, THEN conjunct2,
      unfolded Let_def, folded entered_world_def, THEN mp,
      OF conjI [OF reached_args_world conjI [OF c conjI [OF bal
        conjI [OF reached_after_nested_events r]]]]]
  from c call r ret reached_args_world none skipped bal reached_after_nested_events d pair
  show ?thesis
    by blast
qed

text \<open>
  C5. While the flag \<^verbatim>\<open>_disable\<close> of a thread is set, a call of \<^verbatim>\<open>profiler_function\<close> on that
  thread returns at once and leaves the whole state as it is: no call of the sink, no
  change of the depth counter, the records or the labels. A call that finds the flag
  clear leaves it clear, whether it returns or throws. The events that the interpreter
  delivers while the arguments are formatted make no difference to the result.
\<close>

theorem reentrancy_guard:
  "(disable (tls w t) \<and> tl_instance w t \<noteq> None
      \<longrightarrow> profiler_function rx t pframe swhat w = (Returned, w))
   \<and> (\<not> disable (tls w t)
      \<longrightarrow> \<not> disable (tls (snd (profiler_function rx t pframe swhat w)) t))
   \<and> profiler_function rx t (Some (Frame n f l a evs)) swhat w
       = profiler_function rx t (Some (Frame n f l a [])) swhat w"
proof (intro conjI impI)
  assume "disable (tls w t) \<and> tl_instance w t \<noteq> None"
  then show "profiler_function rx t pframe swhat w = (Returned, w)"
    by (simp add: profiler_function_nested)
next
  assume "\<not> disable (tls w t)"
  then show "\<not> disable (tls (snd (profiler_function rx t pframe swhat w)) t)"
    by (cases pframe)
       (simp_all add: profiler_function_None_idle profiler_function_Some split: prod.split)
next
  show "profiler_function rx t (Some (Frame n f l a evs)) swhat w
      = profiler_function rx t (Some (Frame n f l a [])) swhat w"
    by (simp only: profiler_function_Some profiler_body_reentry [of _ _ n f l a evs])
qed

theorem reentrancy_guard_witness:
  "(disable (tls busy_world 0) \<and> tl_instance busy_world 0 \<noteq> None)
   \<and> profiler_function no_match 0 (Some app_frame) ''call'' busy_world = (Returned, busy_world)
   \<and> \<not> disable (tls args_world 0)
   \<and> fst (profiler_function no_match 0 (Some failing_frame) ''call'' args_world)
       = Raised Error_already_set
   \<and> \<not> disable (tls (snd (profiler_function no_match 0 (Some failing_frame) ''call'' args_world)) 0)"
proof -
  have busy: "disable (tls busy_world 0) \<and> tl_instance busy_world 0 \<noteq> None"
    by (simp add: busy_world_def)
  have idle: "\<not> disable (tls args_world 0)"
    by (simp add: args_world_def set_include_internal_def initial_world_def
          initial_thread_locals_def)
  have raised: "fst (profiler_function no_match 0 (Some failing_frame) ''call'' args_world)
      = Raised Error_already_set"
    using idle
    by (simp add: profiler_function_finish get_config_known args_world_known args_world_decide
          finish_def)
  from reentrancy_guard [of busy_world 0 no_match "Some app_frame" "''call''"] busy
  have nested: "profiler_function no_match 0 (Some app_frame) ''call'' busy_world
      = (Returned, busy_world)"
    by blast
  from reentrancy_guard [of args_world 0 no_match "Some failing_frame" "''call''"] idle
  have restored:
    "\<not> disable (tls (snd (profiler_function no_match 0 (Some failing_frame) ''call'' args_world)) 0)"
    by blast
  from busy nested idle raised restored show ?thesis
    by blast
qed

text \<open>
  C6, as the spec states it: when the running flag is set, start-session changes no field
  of the configuration. It fails on the code: a second \<^verbatim>\<open>profiler_init\<close>, with the module
  found in another directory, changes \<^verbatim>\<open>base_module_path\<close> while the profiler is running.
\<close>

theorem start_session_running_counterexample:
  "is_running (the_config running_world 0)
   \<and> base_module_path
        (the_config (snd (profiler_init (File ''/usr/lib/omnitrace/__init__.py'') 0 running_world)) 0)
       \<noteq> base_module_path (the_config running_world 0)"
  by (simp add: profiler_init_File get_config_known running_world_known running_world_config
        dirname_usr Let_def)

text \<open>
  C6, amended. \<^verbatim>\<open>profiler_init\<close> first stores the directory of the omnitrace module in
  \<^verbatim>\<open>base_module_path\<close> (unless reading the module's file name fails with a cast error,
  which is reported and skipped). If the running flag is set, nothing else changes. If it
  is clear, the records are cleared, \<^verbatim>\<open>base_stack_depth\<close> is set to -1 and the running flag
  is set. A Python error while the module is looked up is thrown on before anything
  changes. The thread-local statics, the sink and the captured installation path are
  unchanged in every case.
\<close>

theorem start_session_effect:
  "profiler_init File_error t w = (Raised Error_already_set, w)
   \<and> fst (profiler_init File_cast_error t w) = Returned
   \<and> the_config (snd (profiler_init File_cast_error t w)) t
       = (let cfg = the_config (get_config t w) t
          in if is_running cfg then cfg
             else cfg\<lparr>records := Map.empty, base_stack_depth := - 1, is_running := True\<rparr>)
   \<and> fst (profiler_init (File f) t w) = Returned
   \<and> the_config (snd (profiler_init (File f) t w)) t
       = (let cfg = the_config (get_config t w) t
          in if is_running cfg then cfg\<lparr>base_module_path := dirname f\<rparr>
             else cfg\<lparr>base_module_path := dirname f, records := Map.empty,
                      base_stack_depth := - 1, is_running := True\<rparr>)
   \<and> tls (snd (profiler_init fr t w)) = tls w
   \<and> sink (snd (profiler_init fr t w)) = sink w
   \<and> omnitrace_path (snd (profiler_init fr t w)) = omnitrace_path w"
  by (simp add: profiler_init_File profiler_init_File_cast_error Let_def)
     (simp add: profiler_init_def)

theorem start_session_effect_witness:
  "profiler_init File_error 0 running_world = (Raised Error_already_set, running_world)
   \<and> the_config (snd (profiler_init (File ''/usr/lib/omnitrace/__init__.py'') 0 running_world)) 0
       = (let cfg = the_config (get_config 0 running_world) 0
          in if is_running cfg
             then cfg\<lparr>base_module_path := dirname ''/usr/lib/omnitrace/__init__.py''\<rparr>
             else cfg\<lparr>base_module_path := dirname ''/usr/lib/omnitrace/__init__.py'',
                      records := Map.empty, base_stack_depth := - 1, is_running := True\<rparr>)
   \<and> sink (snd (profiler_init File_cast_error 0 running_world)) = sink running_world"
  using start_session_effect [of 0 running_world "''/usr/lib/omnitrace/__init__.py''" File_cast_error]
  by (elim conjE) (intro conjI; assumption)

text \<open>
  C7. With \<^verbatim>\<open>include_args\<close> off, the function \<^verbatim>\<open>foo\<close>, the base name \<^verbatim>\<open>bar.py\<close> and line 10:
  with \<^verbatim>\<open>include_filename\<close> and \<^verbatim>\<open>include_line\<close> on and \<^verbatim>\<open>full_filepath\<close> off the label is
  \<^verbatim>\<open>[foo][bar.py:10]\<close>; with \<^verbatim>\<open>include_filename\<close> off and \<^verbatim>\<open>include_line\<close> on it is
  \<^verbatim>\<open>foo:10\<close>; with both off it is \<^verbatim>\<open>foo\<close>.
\<close>

theorem label_concrete_cases:
  assumes "\<not> include_args (the_config w t)" and "f_lineno frame = 10"
  shows "(include_filename (the_config w t) \<and> include_line (the_config w t)
            \<and> \<not> full_filepath (the_config w t)
          \<longrightarrow> get_label reenter t frame ''foo'' ''bar.py'' fullpath w
                = (Inr ''[foo][bar.py:10]'', w))
       \<and> (\<not> include_filename (the_config w t) \<and> include_line (the_config w t)
          \<longrightarrow> get_label reenter t frame ''foo'' ''bar.py'' fullpath w = (Inr ''foo:10'', w))
       \<and> (\<not> include_filename (the_config w t) \<and> \<not> include_line (the_config w t)
          \<longrightarrow> get_label reenter t frame ''foo'' ''bar.py'' fullpath w = (Inr ''foo'', w))"
  using assms by (simp add: get_label_without_args label_of_def show_int_10)

theorem label_concrete_cases_witness:
  "get_label (\<lambda>w. w) 0 bar_frame ''foo'' ''bar.py'' ''/src/bar.py'' (with_flags True True)
     = (Inr ''[foo][bar.py:10]'', with_flags True True)
   \<and> get_label (\<lambda>w. w) 0 bar_frame ''foo'' ''bar.py'' ''/src/bar.py'' (with_flags False True)
     = (Inr ''foo:10'', with_flags False True)
   \<and> get_label (\<lambda>w. w) 0 bar_frame ''foo'' ''bar.py'' ''/src/bar.py'' (with_flags False False)
     = (Inr ''foo'', with_flags False False)"
  using label_concrete_cases [of "with_flags True True" 0 bar_frame "\<lambda>w. w" "''/src/bar.py''"]
    label_concrete_cases [of "with_flags False True" 0 bar_frame "\<lambda>w. w" "''/src/bar.py''"]
    label_concrete_cases [of "with_flags False False" 0 bar_frame "\<lambda>w. w" "''/src/bar.py''"]
  by (simp add: with_flags_config default_config_def bar_frame_def)

text \<open>
  C8. For a return or native-return event whose depth and label have no open region in the
  records, the lookup \<^verbatim>\<open>_profiler_return\<close> changes nothing, and the whole call of
  \<^verbatim>\<open>profiler_function\<close> leaves the sink and every configuration (and with it the records)
  unchanged: no end-action runs and no handle is removed. The ledger step cannot throw:
  the call returns unless the filters or the formatting of the arguments threw.
\<close>

theorem return_without_entry_is_noop:
  assumes "swhat = ''return'' \<or> swhat = ''c_return''"
    and "fst (get_label (\<lambda>w. w) t frame (co_name frame) (get_basename (co_filename frame))
                (co_filename frame) (get_config t w)) = Inr label"
    and "no_open_region (records (the_config (get_config t w) t)) (depth_tracker (tls w t) - 1) label"
  shows "profiler_return t (depth_tracker (tls w t) - 1) label (get_config t w) = get_config t w
       \<and> sink (snd (profiler_function rx t (Some frame) swhat w)) = sink w
       \<and> (\<forall>t'. the_config (snd (profiler_function rx t (Some frame) swhat w)) t'
                 = the_config (get_config t w) t')
       \<and> (fst (profiler_function rx t (Some frame) swhat w) = Returned
          \<or> (\<exists>e. decide rx (the_config (get_config t w) t)
                      (fst (init_omnitrace_path t (get_config t w))) frame swhat = Throws e))"
proof (intro conjI)
  let ?w0 = "get_config t w"
  let ?w1 = "snd (init_omnitrace_path t ?w0)"
  let ?d = "decide rx (the_config ?w0 t) (fst (init_omnitrace_path t ?w0)) frame swhat"
  from assms(3) show "profiler_return t (depth_tracker (tls w t) - 1) label ?w0 = ?w0"
    by (simp add: profiler_return_miss)
  have fin: "sink (snd (finish t ?d ?w1)) = sink w
      \<and> (\<forall>t'. the_config (snd (finish t ?d ?w1)) t' = the_config ?w0 t')"
  proof (cases ?d)
    case Rejected
    then show ?thesis by (simp add: finish_def)
  next
    case (Throws e)
    then show ?thesis by (simp add: finish_def)
  next
    case (Accepted what label')
    from decide_Accepted [OF Accepted] assms(1) have ret: "\<not> is_call what"
      by (simp add: what_of_return)
    from decide_Accepted(2) [OF Accepted] assms(2) have "label' = label"
      by (simp add: get_label_label_of)
    with assms(3) have
      "no_open_region (records (the_config ?w1 t)) (depth_tracker (tls ?w1 t) - 1) label'"
      by simp
    from record_event_return_miss [OF ret this] Accepted show ?thesis
      by (simp add: finish_def)
  qed
  show "sink (snd (profiler_function rx t (Some frame) swhat w)) = sink w"
  proof (cases "disable (tls w t)")
    case True
    then show ?thesis by (simp add: profiler_function_busy)
  next
    case False
    with fin show ?thesis by (simp add: profiler_function_finish)
  qed
  show "\<forall>t'. the_config (snd (profiler_function rx t (Some frame) swhat w)) t'
                 = the_config (get_config t w) t'"
  proof (cases "disable (tls w t)")
    case True
    then show ?thesis by (simp add: profiler_function_busy)
  next
    case False
    with fin show ?thesis by (simp add: profiler_function_finish)
  qed
  show "fst (profiler_function rx t (Some frame) swhat w) = Returned \<or> (\<exists>e. ?d = Throws e)"
  proof (cases "disable (tls w t)")
    case True
    then show ?thesis by (simp add: profiler_function_busy)
  next
    case False
    then show ?thesis
      by (cases ?d) (simp_all add: profiler_function_finish finish_def)
  qed
qed

theorem return_without_entry_is_noop_witness:
  "(''return'' = ''return'' \<or> ''return'' = ''c_return'')
   \<and> fst (get_label (\<lambda>w. w) 0 app_frame (co_name app_frame)
             (get_basename (co_filename app_frame)) (co_filename app_frame)
             (get_config 0 running_world)) = Inr ''foo''
   \<and> no_open_region (records (the_config (get_config 0 running_world) 0))
        (depth_tracker (tls running_world 0) - 1) ''foo''
   \<and> profiler_return 0 (depth_tracker (tls running_world 0) - 1) ''foo''
        (get_config 0 running_world) = get_config 0 running_world
   \<and> sink (snd (profiler_function no_match 0 (Some app_frame) ''return'' running_world))
       = sink running_world
   \<and> (\<forall>t'. the_config (snd (profiler_function no_match 0 (Some app_frame) ''return''
                                     running_world)) t'
             = the_config (get_config 0 running_world) t')"
proof -
  have kind: "''return'' = ''return'' \<or> ''return'' = ''c_return''"
    by simp
  have label: "fst (get_label (\<lambda>w. w) 0 app_frame (co_name app_frame)
             (get_basename (co_filename app_frame)) (co_filename app_frame)
             (get_config 0 running_world)) = Inr ''foo''"
    by (simp add: get_label_label_of get_config_known running_world_known running_world_config
          label_of_def default_config_def app_frame_def)
  have miss: "no_open_region (records (the_config (get_config 0 running_world) 0))
        (depth_tracker (tls running_world 0) - 1) ''foo''"
    by (simp add: get_config_known running_world_known running_world_config no_open_region_def
          default_config_def)
  from return_without_entry_is_noop [OF kind label miss, of no_match] kind label miss
  show ?thesis
    by blast
qed

text \<open>
  C9. For an event whose kind is none of \<^verbatim>\<open>call\<close>, \<^verbatim>\<open>c_call\<close>, \<^verbatim>\<open>return\<close> and \<^verbatim>\<open>c_return\<close>,
  \<^verbatim>\<open>profiler_function\<close> returns and leaves the configuration of every thread (and with it
  the records), the thread-local statics (the depth counter, the labels, the flag) and
  the calls of the sink as they were.
\<close>

theorem unrecognized_kind_no_effect:
  assumes "swhat \<notin> {''call'', ''c_call'', ''return'', ''c_return''}"
  shows "fst (profiler_function rx t pframe swhat w) = Returned
       \<and> (\<forall>t'. the_config (snd (profiler_function rx t pframe swhat w)) t'
                 = the_config (get_config t w) t')
       \<and> tls (snd (profiler_function rx t pframe swhat w)) = tls w
       \<and> sink (snd (profiler_function rx t pframe swhat w)) = sink w"
proof (cases "disable (tls w t)")
  case True
  then show ?thesis
    by (simp add: profiler_function_busy)
next
  case idle: False
  show ?thesis
  proof (cases pframe)
    case None
    with idle show ?thesis
      by (simp add: profiler_function_None_idle)
  next
    case (Some frame)
    from assms have "what_of swhat = None"
      by (simp add: what_of_None_iff)
    then have "decide rx cfg path frame swhat = Rejected" for cfg path
      by (simp add: decide_def)
    with idle Some show ?thesis
      by (simp add: profiler_function_rejected)
  qed
qed

theorem unrecognized_kind_no_effect_witness:
  "''line'' \<notin> {''call'', ''c_call'', ''return'', ''c_return''}
   \<and> fst (profiler_function no_match 0 (Some app_frame) ''line'' initial_world) = Returned
   \<and> (\<forall>t'. the_config (snd (profiler_function no_match 0 (Some app_frame) ''line'' initial_world)) t'
             = the_config (get_config 0 initial_world) t')
   \<and> tls (snd (profiler_function no_match 0 (Some app_frame) ''line'' initial_world))
       = tls initial_world
   \<and> sink (snd (profiler_function no_match 0 (Some app_frame) ''line'' initial_world))
       = sink initial_world"
proof -
  have k: "''line'' \<notin> {''call'', ''c_call'', ''return'', ''c_return''}"
    by simp
  from k unrecognized_kind_no_effect [OF k, of no_match 0 "Some app_frame" initial_world]
  show ?thesis
    by (elim conjE) (intro conjI; assumption)
qed

text \<open>
  C10, as the spec states it: the installation path is captured at the first invocation of
  the callback, and later changes of \<^verbatim>\<open>base_module_path\<close> do not affect the self-exclusion.
  It fails on the code: a first invocation with \<^verbatim>\<open>None\<close> for the frame returns before the
  declaration of \<^verbatim>\<open>_omnitrace_path\<close> and captures nothing; \<^verbatim>\<open>base_module_path\<close> is empty at
  that moment, \<^verbatim>\<open>profiler_init\<close> sets it afterwards, and the next invocation captures the
  new value and forwards an event to the sink that an empty prefix would have rejected.
\<close>

theorem first_invocation_capture_counterexample:
  "omnitrace_path (snd (profiler_function no_match 0 None ''call'' initial_world)) = None
   \<and> omnitrace_path
        (snd (profiler_function no_match 0 (Some app_frame) ''call''
               (snd (profiler_init (File ''/opt/omnitrace/__init__.py'') 0
                      (snd (profiler_function no_match 0 None ''call'' initial_world))))))
       = Some ''/opt/omnitrace''
   \<and> sink
        (snd (profiler_function no_match 0 (Some app_frame) ''call''
               (snd (profiler_init (File ''/opt/omnitrace/__init__.py'') 0
                      (snd (profiler_function no_match 0 None ''call'' initial_world))))))
       = [Push_region ''foo'']"
proof -
  have "sink traced_world = [Push_region ''foo'']"
    by (simp add: traced_world_eq sink_record_event_call running_world_def)
       (simp add: initial_world_def)
  moreover have "omnitrace_path traced_world = Some ''/opt/omnitrace''"
    by (simp add: traced_world_eq)
  moreover have "omnitrace_path (get_config 0 initial_world) = None"
    by (simp add: initial_world_def)
  ultimately show ?thesis
    by (simp add: null_frame_world running_world_after_null_frame traced_world_def [symmetric])
qed

text \<open>
  C10, amended. An invocation with \<^verbatim>\<open>None\<close> for the frame, or one that finds \<^verbatim>\<open>_disable\<close>
  set, captures nothing. The first other invocation in the process captures the
  \<^verbatim>\<open>base_module_path\<close> of the configuration of the thread it runs on. Once captured, the
  value is never changed, by the callback on any thread, by start-session, stop-session
  or a setter. After the capture, a change of \<^verbatim>\<open>base_module_path\<close> on any thread commutes
  with every invocation of the callback on any thread: the outcome is the same and the
  state after it differs only by that change. When the captured value (or, before the
  capture, \<^verbatim>\<open>base_module_path\<close>) is empty and \<^verbatim>\<open>include_internal\<close> is off, every event
  is rejected: the sink, the thread-local statics and the configurations are unchanged,
  and the invocation returns unless a regular expression of the function filters threw.
\<close>

theorem installation_path_capture:
  "omnitrace_path (snd (profiler_function rx t None swhat w)) = omnitrace_path w
   \<and> (disable (tls w t)
      \<longrightarrow> omnitrace_path (snd (profiler_function rx t pframe swhat w)) = omnitrace_path w)
   \<and> (omnitrace_path w = None \<and> \<not> disable (tls w t)
      \<longrightarrow> omnitrace_path (snd (profiler_function rx t (Some frame) swhat w))
            = Some (base_module_path (the_config (get_config t w) t)))
   \<and> (omnitrace_path w = Some p
      \<longrightarrow> omnitrace_path (snd (profiler_function rx t pframe swhat w)) = Some p
          \<and> omnitrace_path (snd (profiler_init fr t w)) = Some p
          \<and> omnitrace_path (profiler_finalize t w) = Some p
          \<and> omnitrace_path (configuration_property_set upd t w) = Some p
          \<and> omnitrace_path (snd (configuration_strset_set field assign val t w)) = Some p)
   \<and> (omnitrace_path w = Some p \<and> tl_instance w t \<noteq> None \<and> tl_instance w t' \<noteq> None
      \<longrightarrow> profiler_function rx t pframe swhat
              (configuration_property_set (\<lambda>c. c\<lparr>base_module_path := x\<rparr>) t' w)
            = (fst (profiler_function rx t pframe swhat w),
               configuration_property_set (\<lambda>c. c\<lparr>base_module_path := x\<rparr>) t'
                 (snd (profiler_function rx t pframe swhat w))))
   \<and> ((case omnitrace_path w of
          Some p \<Rightarrow> p
        | None \<Rightarrow> base_module_path (the_config (get_config t w) t)) = []
        \<and> \<not> include_internal (the_config (get_config t w) t)
      \<longrightarrow> sink (snd (profiler_function rx t pframe swhat w)) = sink w
          \<and> tls (snd (profiler_function rx t pframe swhat w)) = tls w
          \<and> (\<forall>t'. the_config (snd (profiler_function rx t pframe swhat w)) t'
                    = the_config (get_config t w) t')
          \<and> (fst (profiler_function rx t pframe swhat w) = Returned
             \<or> fst (profiler_function rx t pframe swhat w) = Raised Regex_error))"
proof (intro conjI impI)
  show "omnitrace_path (snd (profiler_function rx t None swhat w)) = omnitrace_path w"
    by (cases "disable (tls w t)")
       (simp_all add: profiler_function_busy profiler_function_None_idle)
next
  assume "disable (tls w t)"
  then show "omnitrace_path (snd (profiler_function rx t pframe swhat w)) = omnitrace_path w"
    by (simp add: profiler_function_busy)
next
  assume "omnitrace_path w = None \<and> \<not> disable (tls w t)"
  then show "omnitrace_path (snd (profiler_function rx t (Some frame) swhat w))
            = Some (base_module_path (the_config (get_config t w) t))"
    by (simp add: omnitrace_path_profiler_function_Some)
next
  assume cap: "omnitrace_path w = Some p"
  show "omnitrace_path (snd (profiler_function rx t pframe swhat w)) = Some p"
  proof (cases "disable (tls w t)")
    case True
    with cap show ?thesis by (simp add: profiler_function_busy)
  next
    case False
    with cap show ?thesis
      by (cases pframe)
         (simp_all add: profiler_function_None_idle omnitrace_path_profiler_function_Some)
  qed
  from cap show "omnitrace_path (snd (profiler_init fr t w)) = Some p"
    by simp
  from cap show "omnitrace_path (profiler_finalize t w) = Some p"
    by simp
  from cap show "omnitrace_path (configuration_property_set upd t w) = Some p"
    by simp
  from cap show "omnitrace_path (snd (configuration_strset_set field assign val t w)) = Some p"
    by simp
next
  assume "omnitrace_path w = Some p \<and> tl_instance w t \<noteq> None \<and> tl_instance w t' \<noteq> None"
  then show "profiler_function rx t pframe swhat
              (configuration_property_set (\<lambda>c. c\<lparr>base_module_path := x\<rparr>) t' w)
            = (fst (profiler_function rx t pframe swhat w),
               configuration_property_set (\<lambda>c. c\<lparr>base_module_path := x\<rparr>) t'
                 (snd (profiler_function rx t pframe swhat w)))"
    by (simp add: profiler_function_base)
next
  assume empty: "(case omnitrace_path w of
          Some p \<Rightarrow> p
        | None \<Rightarrow> base_module_path (the_config (get_config t w) t)) = []
        \<and> \<not> include_internal (the_config (get_config t w) t)"
  let ?w0 = "get_config t w"
  have rej: "profiler_function rx t pframe swhat w = (Returned, ?w0)
      \<or> profiler_function rx t pframe swhat w = (Returned, snd (init_omnitrace_path t ?w0))
      \<or> profiler_function rx t pframe swhat w = (Raised Regex_error, snd (init_omnitrace_path t ?w0))"
  proof (cases "disable (tls w t)")
    case True
    then show ?thesis by (simp add: profiler_function_busy)
  next
    case idle: False
    show ?thesis
    proof (cases pframe)
      case None
      with idle show ?thesis by (simp add: profiler_function_None_idle)
    next
      case (Some frame)
      from empty have path: "fst (init_omnitrace_path t ?w0) = []"
        by (simp add: fst_init_omnitrace_path)
      from empty have "decide rx (the_config ?w0 t) [] frame swhat = Rejected
          \<or> decide rx (the_config ?w0 t) [] frame swhat = Throws Regex_error"
        by (simp add: decide_empty_path)
      with idle Some path show ?thesis
        by (auto simp add: profiler_function_finish finish_def)
    qed
  qed
  from rej show "sink (snd (profiler_function rx t pframe swhat w)) = sink w"
    by auto
  from rej show "tls (snd (profiler_function rx t pframe swhat w)) = tls w"
    by auto
  from rej show "\<forall>t'. the_config (snd (profiler_function rx t pframe swhat w)) t'
                    = the_config (get_config t w) t'"
    by auto
  from rej show "fst (profiler_function rx t pframe swhat w) = Returned
             \<or> fst (profiler_function rx t pframe swhat w) = Raised Regex_error"
    by auto
qed

theorem installation_path_capture_witness:
  "disable (tls busy_world 0)
   \<and> omnitrace_path (snd (profiler_function no_match 0 (Some app_frame) ''call'' busy_world))
       = omnitrace_path busy_world
   \<and> (omnitrace_path running_world = None \<and> \<not> disable (tls running_world 0))
   \<and> omnitrace_path (snd (profiler_function no_match 0 (Some app_frame) ''call'' running_world))
       = Some (base_module_path (the_config (get_config 0 running_world) 0))
   \<and> omnitrace_path traced_world = Some ''/opt/omnitrace''
   \<and> omnitrace_path (snd (profiler_init (File ''/usr/lib/omnitrace/__init__.py'') 0 traced_world))
       = Some ''/opt/omnitrace''
   \<and> (omnitrace_path traced_world = Some ''/opt/omnitrace'' \<and> tl_instance traced_world 0 \<noteq> None
        \<and> tl_instance traced_world 0 \<noteq> None)
   \<and> profiler_function no_match 0 (Some app_frame) ''return''
        (configuration_property_set (\<lambda>c. c\<lparr>base_module_path := ''/home/user''\<rparr>) 0 traced_world)
       = (fst (profiler_function no_match 0 (Some app_frame) ''return'' traced_world),
          configuration_property_set (\<lambda>c. c\<lparr>base_module_path := ''/home/user''\<rparr>) 0
            (snd (profiler_function no_match 0 (Some app_frame) ''return'' traced_world)))
   \<and> ((case omnitrace_path initial_world of
          Some p \<Rightarrow> p
        | None \<Rightarrow> base_module_path (the_config (get_config 0 initial_world) 0)) = []
        \<and> \<not> include_internal (the_config (get_config 0 initial_world) 0))
   \<and> sink (snd (profiler_function no_match 0 (Some app_frame) ''call'' initial_world))
       = sink initial_world"
proof -
  have busy: "disable (tls busy_world 0)"
    by (simp add: busy_world_def)
  have fresh: "omnitrace_path running_world = None \<and> \<not> disable (tls running_world 0)"
    by (simp add: running_world_omnitrace_path running_world_tls initial_thread_locals_def)
  have cap: "omnitrace_path traced_world = Some ''/opt/omnitrace''"
    by (simp add: traced_world_eq)
  have known: "omnitrace_path traced_world = Some ''/opt/omnitrace''
      \<and> tl_instance traced_world 0 \<noteq> None \<and> tl_instance traced_world 0 \<noteq> None"
    using cap traced_world_known by simp
  have empty: "(case omnitrace_path initial_world of
          Some p \<Rightarrow> p
        | None \<Rightarrow> base_module_path (the_config (get_config 0 initial_world) 0)) = []
        \<and> \<not> include_internal (the_config (get_config 0 initial_world) 0)"
  proof -
    have "omnitrace_path initial_world = None"
      by (simp add: initial_world_def)
    then show ?thesis
      by (simp add: default_config_def)
  qed
  note T = installation_path_capture
  note c1 = T [where w = busy_world and t = 0 and rx = no_match and pframe = "Some app_frame"
    and swhat = "''call''", THEN conjunct2, THEN conjunct1, THEN mp, OF busy]
  note c2 = T [where w = running_world and t = 0 and rx = no_match and frame = app_frame
    and swhat = "''call''", THEN conjunct2, THEN conjunct2, THEN conjunct1, THEN mp, OF fresh]
  note c3 = T [where w = traced_world and t = 0 and p = "''/opt/omnitrace''"
    and fr = "File ''/usr/lib/omnitrace/__init__.py''",
    THEN conjunct2, THEN conjunct2, THEN conjunct2, THEN conjunct1, THEN mp, OF cap,
    THEN conjunct2, THEN conjunct1]
  note c4 = T [where w = traced_world and t = 0 and t' = 0 and p = "''/opt/omnitrace''"
    and rx = no_match and pframe = "Some app_frame" and swhat = "''return''"
    and x = "''/home/user''",
    THEN conjunct2, THEN conjunct2, THEN conjunct2, THEN conjunct2, THEN conjunct1, THEN mp,
    OF known]
  note c5 = T [where w = initial_world and t = 0 and rx = no_match and pframe = "Some app_frame"
    and swhat = "''call''",
    THEN conjunct2, THEN conjunct2, THEN conjunct2, THEN conjunct2, THEN conjunct2, THEN mp,
    OF empty, THEN conjunct1]
  from busy c1 fresh c2 cap c3 known c4 empty c5 show ?thesis
    by blast
qed

end
